theory Spec2Isabelle
  imports Complex_Main "HOL-Library.Multiset" "HOL-Library.Product_Lexorder"
begin

section \<open>JavaScript values used by the aura engine\<close>

text \<open>
  A JavaScript number is a finite value, one of the two infinities, or NaN.  Finite
  values are idealised as reals: rounding and the sign of zero are not modelled, every
  other case of the arithmetic the source uses is written out.
\<close>

datatype jsnum = Num real | PosInf | NegInf | NaN

fun jneg :: "jsnum \<Rightarrow> jsnum" where
  "jneg (Num a) = Num (- a)"
| "jneg PosInf = NegInf"
| "jneg NegInf = PosInf"
| "jneg NaN = NaN"

fun jadd :: "jsnum \<Rightarrow> jsnum \<Rightarrow> jsnum" where
  "jadd (Num a) (Num b) = Num (a + b)"
| "jadd NaN _ = NaN"
| "jadd _ NaN = NaN"
| "jadd PosInf NegInf = NaN"
| "jadd NegInf PosInf = NaN"
| "jadd PosInf _ = PosInf"
| "jadd _ PosInf = PosInf"
| "jadd NegInf _ = NegInf"
| "jadd _ NegInf = NegInf"

definition jsub :: "jsnum \<Rightarrow> jsnum \<Rightarrow> jsnum" where
  "jsub a b = jadd a (jneg b)"

text \<open>The sign of a number: \<open>None\<close> for NaN, otherwise -1, 0 or 1.\<close>

fun jsign :: "jsnum \<Rightarrow> int option" where
  "jsign (Num a) = Some (if a < 0 then - 1 else if a = 0 then 0 else 1)"
| "jsign PosInf = Some 1"
| "jsign NegInf = Some (- 1)"
| "jsign NaN = None"

fun jmul :: "jsnum \<Rightarrow> jsnum \<Rightarrow> jsnum" where
  "jmul (Num a) (Num b) = Num (a * b)"
| "jmul a b =
     (case (jsign a, jsign b) of
        (Some s, Some t) \<Rightarrow>
          (if s * t = 0 then NaN else if s * t < 0 then NegInf else PosInf)
      | _ \<Rightarrow> NaN)"

fun jdiv :: "jsnum \<Rightarrow> jsnum \<Rightarrow> jsnum" where
  "jdiv (Num a) (Num b) =
     (if b = 0 then (if a = 0 then NaN else if a < 0 then NegInf else PosInf)
      else Num (a / b))"
| "jdiv NaN _ = NaN"
| "jdiv _ NaN = NaN"
| "jdiv (Num a) _ = Num 0"
| "jdiv PosInf (Num b) = (if b < 0 then NegInf else PosInf)"
| "jdiv NegInf (Num b) = (if b < 0 then PosInf else NegInf)"
| "jdiv _ _ = NaN"

text \<open>The comparisons \<open><\<close> and \<open><=\<close>; both are false when an operand is NaN.\<close>

fun jlt :: "jsnum \<Rightarrow> jsnum \<Rightarrow> bool" where
  "jlt NaN _ = False"
| "jlt _ NaN = False"
| "jlt (Num a) (Num b) = (a < b)"
| "jlt _ NegInf = False"
| "jlt NegInf _ = True"
| "jlt PosInf _ = False"
| "jlt _ PosInf = True"

fun jle :: "jsnum \<Rightarrow> jsnum \<Rightarrow> bool" where
  "jle NaN _ = False"
| "jle _ NaN = False"
| "jle (Num a) (Num b) = (a \<le> b)"
| "jle NegInf _ = True"
| "jle _ PosInf = True"
| "jle _ _ = False"

text \<open>\<open>Math.min\<close> of two numbers and of an argument list (\<open>Infinity\<close> when empty).\<close>

definition jmin2 :: "jsnum \<Rightarrow> jsnum \<Rightarrow> jsnum" where
  "jmin2 a b = (if a = NaN \<or> b = NaN then NaN else if jle a b then a else b)"

definition Math_min :: "jsnum list \<Rightarrow> jsnum" where
  "Math_min ds = foldr jmin2 ds PosInf"

text \<open>A number is falsy when it is zero or NaN.\<close>

definition falsy :: "jsnum \<Rightarrow> bool" where
  "falsy n = (n = Num 0 \<or> n = NaN)"

text \<open>
  A string is a list of characters, which are the code units 0 to 255.
  \<open>String.prototype.trim\<close> removes white space and line terminators from both ends;
  among these code units they are the tab, the line feed, the vertical tab, the form
  feed, the carriage return, the space and the no-break space.
\<close>

definition isSpace :: "char \<Rightarrow> bool" where
  "isSpace c =
     (c \<in> set [CHR 0x09, CHR 0x0A, CHR 0x0B, CHR 0x0C, CHR 0x0D, CHR 0x20, CHR 0xA0])"

definition trim :: "string \<Rightarrow> string" where
  "trim s = rev (dropWhile isSpace (rev (dropWhile isSpace s)))"

datatype js_error = TypeError string | SyntaxError string | ScriptError string

type_synonym uuid = string

section \<open>Documents: effects, actors, tokens\<close>

text \<open>The \<open>system\<close> data of an aura source effect (the fields the engine reads).\<close>

record aura_system =
  distance :: jsnum
  disposition :: int
  collisionTypes :: "string list"
  script :: "string option"
  applyToSelf :: bool
  overrideName :: string
  bestFormula :: "string option"
  disableOnHidden :: bool

text \<open>What an effect's \<open>parent\<close> or \<open>target\<close> can be: an actor, or an item (with its owning
  actor when it has one).\<close>

datatype doc_ref = ActorRef uuid | ItemRef "uuid option"

record effect =
  uuid :: uuid
  ename :: string
  etype :: string
  origin :: "uuid option"
  fromAura :: bool
  disabled :: bool
  isSuppressed :: bool
  modifiesActor :: bool
  parent :: doc_ref
  target :: doc_ref
  system :: aura_system

type_synonym rollData = "(string \<times> jsnum) list"

text \<open>
  An actor with the three views of its effects that the engine reads: \<open>actor.effects\<close>,
  \<open>actor.appliedEffects\<close> and \<open>actor.allApplicableEffects()\<close>.  They are computed by
  the host and are kept as they are read.
\<close>

record actor =
  actorUuid :: uuid
  actorName :: string
  effects :: "effect list"
  appliedEffects :: "effect list"
  allApplicableEffects :: "effect list"
  getRollData :: rollData

record position =
  pos_x :: real
  pos_y :: real
  pos_elevation :: "real option"

record movement =
  mstate :: string
  pending_distance :: "jsnum option"
  destination_x :: real
  destination_y :: real
  destination_elevation :: real

text \<open>
  A token document together with what the engine reads from its rendered object
  (\<open>object.center\<close>, \<open>object.externalRadius\<close>).  \<open>tokenActor\<close> is the identifier of the
  token's actor, \<open>None\<close> for an actorless token; \<open>tokenId\<close> stands for the identity of the
  document.
\<close>

record token =
  tokenId :: string
  tokenActor :: "uuid option"
  tokenDisposition :: int
  tok_x :: real
  tok_y :: real
  tok_elevation :: "real option"
  tok_width :: real
  center_x :: real
  center_y :: real
  externalRadius :: real
  tokenMovement :: movement

text \<open>Grid coordinates: an offset \<open>{i, j}\<close> of a grid space, or a point \<open>{x, y}\<close>.\<close>

datatype coords = Offset int int | Point real real

record elevatedPoint =
  ep_x :: real
  ep_y :: real
  ep_elevation :: real

record rectangle =
  rect_x :: jsnum
  rect_y :: jsnum
  rect_width :: jsnum
  rect_height :: jsnum

text \<open>
  The state the handlers read: the actors, the tokens of the scene, the connected game
  master (\<open>game.users.activeGM\<close>), the current user, whether a scene is viewed, and the
  module's \<open>seenWarning\<close> flag.
\<close>

record world =
  actors :: "actor list"
  tokens :: "token list"
  activeGM :: "string option"
  user :: string
  hasScene :: bool
  seenWarning :: bool

type_synonym actorToEffectsMap = "(uuid \<times> uuid list) list"

type_synonym scriptFunction =
  "actor \<Rightarrow> token \<Rightarrow> token \<Rightarrow> rollData \<Rightarrow> js_error + bool"

text \<open>
  The host the module runs on, as the functions the engine calls: the scene grid, the
  collision backends, the token layer's quadtree, the \<open>Function\<close> constructor, dice
  rolls, and the two queries answered by the game master's session.
\<close>

record host =
  isGridless :: bool
  grid_distance :: jsnum
  grid_size :: jsnum
  measurePath :: "elevatedPoint \<Rightarrow> elevatedPoint \<Rightarrow> jsnum"
  grid_getCenterPoint :: "coords \<Rightarrow> real \<times> real"
  polygonBackends :: "string \<Rightarrow> (elevatedPoint \<Rightarrow> elevatedPoint \<Rightarrow> bool) option"
  token_getCenterPoint :: "token \<Rightarrow> position option \<Rightarrow> coords"
  getOccupiedGridSpaceOffsets :: "token \<Rightarrow> position option \<Rightarrow> coords list"
  quadtree_getObjects :: "world \<Rightarrow> rectangle \<Rightarrow> token list"
  Function :: "string \<Rightarrow> js_error + scriptFunction"
  rollTotal :: "string \<Rightarrow> rollData \<Rightarrow> jsnum"
  query_applyAuraEffects :: "actorToEffectsMap \<Rightarrow> world \<Rightarrow> world"
  query_deleteEffects :: "uuid list \<Rightarrow> world \<Rightarrow> world"

section \<open>Geometry\<close>

text \<open>
  The test of one collision type,
  \<open>CONFIG.Canvas.polygonBackends[collisionType]?.testCollision(a, b, ...)\<close>: a type with no
  backend tests nothing.
\<close>

definition blocked :: "host \<Rightarrow> elevatedPoint \<Rightarrow> elevatedPoint \<Rightarrow> string \<Rightarrow> bool" where
  "blocked h a b collisionType =
     (case polygonBackends h collisionType of
        Some testCollision \<Rightarrow> testCollision a b
      | None \<Rightarrow> False)"

text \<open>
  \<open>getDistance\<close>: the 3D distance in grid units, \<open>Infinity\<close> as soon as a listed
  collision type reports a collision.
\<close>

fun getDistance ::
  "host \<Rightarrow> elevatedPoint \<Rightarrow> elevatedPoint \<Rightarrow> string list \<Rightarrow> jsnum" where
  "getDistance h a b [] = measurePath h a b"
| "getDistance h a b (collisionType # rest) =
     (if blocked h a b collisionType then PosInf else getDistance h a b rest)"

definition elevated :: "real \<times> real \<Rightarrow> real \<Rightarrow> elevatedPoint" where
  "elevated p e = \<lparr>ep_x = fst p, ep_y = snd p, ep_elevation = e\<rparr>"

text \<open>\<open>origin.elevation ?? tokenA.elevation ?? 0\<close>, where a missing origin is \<open>{}\<close>.\<close>

definition elevationA :: "token \<Rightarrow> position option \<Rightarrow> real" where
  "elevationA tokenA orig =
     (case (case orig of None \<Rightarrow> None | Some p \<Rightarrow> pos_elevation p) of
        Some e \<Rightarrow> e
      | None \<Rightarrow> (case tok_elevation tokenA of Some e \<Rightarrow> e | None \<Rightarrow> 0))"

definition elevationB :: "token \<Rightarrow> real" where
  "elevationB tokenB = (case tok_elevation tokenB of Some e \<Rightarrow> e | None \<Rightarrow> 0)"

text \<open>\<open>getTokenToTokenDistance\<close>: the minimum 3D distance from one token to another.\<close>

definition getTokenToTokenDistance ::
  "host \<Rightarrow> token \<Rightarrow> token \<Rightarrow> position option \<Rightarrow> string list \<Rightarrow> jsnum" where
  "getTokenToTokenDistance h tokenA tokenB orig cts =
     (let tokenAOffsets =
            (if isGridless h then [token_getCenterPoint h tokenA orig]
             else getOccupiedGridSpaceOffsets h tokenA orig);
          tokenBOffsets =
            (if isGridless h then [token_getCenterPoint h tokenB None]
             else getOccupiedGridSpaceOffsets h tokenB None);
          tokenAElevation = elevationA tokenA orig;
          tokenBElevation = elevationB tokenB;
          distances =
            concat (map (\<lambda>offsetA. map (\<lambda>offsetB.
              getDistance h
                (elevated (grid_getCenterPoint h offsetA) tokenAElevation)
                (elevated (grid_getCenterPoint h offsetB) tokenBElevation) cts)
              tokenBOffsets) tokenAOffsets);
          externalAdjust =
            jmul (jdiv (grid_distance h) (grid_size h))
              (if isGridless h then Num (externalRadius tokenA) else Num 0)
      in jsub (Math_min distances) externalAdjust)"

text \<open>\<open>getGenerallyWithin\<close>: the tokens the quadtree reports in a square around the
  source's centre.\<close>

definition getGenerallyWithin :: "host \<Rightarrow> world \<Rightarrow> token \<Rightarrow> jsnum \<Rightarrow> token list" where
  "getGenerallyWithin h w sourceToken radius =
     (let adjustedRadius =
            jmul (grid_size h)
              (jadd (jdiv radius (grid_distance h)) (Num (tok_width sourceToken / 2)));
          rect = \<lparr>rect_x = jsub (Num (center_x sourceToken)) adjustedRadius,
                  rect_y = jsub (Num (center_y sourceToken)) adjustedRadius,
                  rect_width = jmul (Num 2) adjustedRadius,
                  rect_height = jmul (Num 2) adjustedRadius\<rparr>
      in quadtree_getObjects h w rect)"

section \<open>Predicate evaluation\<close>

text \<open>Actors are held by identifier; \<open>token.actor\<close> is the actor the token's identifier
  resolves to, if any.\<close>

definition actorByUuid :: "world \<Rightarrow> uuid \<Rightarrow> actor option" where
  "actorByUuid w u = find (\<lambda>a. actorUuid a = u) (actors w)"

definition token_actor :: "world \<Rightarrow> token \<Rightarrow> actor option" where
  "token_actor w t =
     (case tokenActor t of
        None \<Rightarrow> None
      | Some u \<Rightarrow> actorByUuid w u)"

text \<open>
  \<open>executeScript\<close>.  Reading \<open>getRollData\<close> of a missing actor raises a TypeError; the
  \<open>Function\<close> constructor parses its body when it is called, which is before the \<open>try\<close>
  block; the call of the compiled function is inside it, and the \<open>catch\<close> block reads
  \<open>sourceToken.actor.name\<close> for its log message.
\<close>

definition executeScript ::
  "host \<Rightarrow> world \<Rightarrow> token \<Rightarrow> token \<Rightarrow> effect \<Rightarrow> js_error + bool" where
  "executeScript h w sourceToken tok eff =
     (case token_actor w tok of
        None \<Rightarrow> Inl (TypeError ''actor.getRollData'')
      | Some actor \<Rightarrow>
          (let rollData = getRollData actor;
               scriptText = (case script (system eff) of None \<Rightarrow> [] | Some s \<Rightarrow> s)
           in if length (trim scriptText) = 0 then Inr True
              else
                (case Function h (''return Boolean('' @ scriptText @ '');'') of
                   Inl syntaxError \<Rightarrow> Inl syntaxError
                 | Inr toEvaluate \<Rightarrow>
                     (case toEvaluate actor tok sourceToken rollData of
                        Inr b \<Rightarrow> Inr b
                      | Inl error \<Rightarrow>
                          (case token_actor w sourceToken of
                             None \<Rightarrow> Inl (TypeError ''sourceToken.actor.name'')
                           | Some sourceActor \<Rightarrow> Inr True)))))"

text \<open>The line \<open>executeScript\<close> writes to the console, if it writes one: the source
  actor's name, the effect's name and the error.\<close>

definition executeScript_log ::
  "host \<Rightarrow> world \<Rightarrow> token \<Rightarrow> token \<Rightarrow> effect \<Rightarrow> (string \<times> string \<times> js_error) option" where
  "executeScript_log h w sourceToken tok eff =
     (case token_actor w tok of
        None \<Rightarrow> None
      | Some actor \<Rightarrow>
          (let rollData = getRollData actor;
               scriptText = (case script (system eff) of None \<Rightarrow> [] | Some s \<Rightarrow> s)
           in if length (trim scriptText) = 0 then None
              else
                (case Function h (''return Boolean('' @ scriptText @ '');'') of
                   Inl syntaxError \<Rightarrow> None
                 | Inr toEvaluate \<Rightarrow>
                     (case toEvaluate actor tok sourceToken rollData of
                        Inr b \<Rightarrow> None
                      | Inl error \<Rightarrow>
                          (case token_actor w sourceToken of
                             None \<Rightarrow> None
                           | Some sourceActor \<Rightarrow>
                               Some (actorName sourceActor, ename eff, error))))))"

text \<open>\<open>getNearbyTokens\<close>: the tokens with an actor, of the wanted relative disposition,
  within \<open>radius\<close> of the source.\<close>

definition getNearbyTokens ::
  "host \<Rightarrow> world \<Rightarrow> token \<Rightarrow> jsnum \<Rightarrow> position option \<Rightarrow> int \<Rightarrow> string list \<Rightarrow> token list"
  where
  "getNearbyTokens h w source radius orig disp cts =
     (let putativeTokens =
            filter (\<lambda>t.
              if token_actor w t = None then False
              else if disp < 0 then tokenDisposition source * tokenDisposition t = - 1
              else if disp > 0 then tokenDisposition source = tokenDisposition t
              else True)
              (getGenerallyWithin h w source radius)
      in filter (\<lambda>tok. jle (getTokenToTokenDistance h source tok orig cts) radius)
           putativeTokens)"

text \<open>\<open>isFinalMovementComplete\<close>: no further movement is queued.\<close>

definition isFinalMovementComplete :: "token \<Rightarrow> bool" where
  "isFinalMovementComplete t =
     (mstate (tokenMovement t) = ''stopped'' \<or>
      ((case pending_distance (tokenMovement t) of None \<Rightarrow> True | Some d \<Rightarrow> falsy d) \<and>
       destination_x (tokenMovement t) = tok_x t \<and>
       destination_y (tokenMovement t) = tok_y t \<and>
       tok_elevation t = Some (destination_elevation (tokenMovement t))))"

section \<open>Aura registry and scene delta\<close>

definition isAura :: "effect \<Rightarrow> bool" where
  "isAura e = (etype e = ''auraeffects.aura'')"

definition isActive :: "effect \<Rightarrow> bool" where
  "isActive e = (\<not> disabled e \<and> \<not> isSuppressed e)"

text \<open>
  \<open>getAllAuraEffects\<close>: the aura source effects applicable to an actor, active ones
  first, inactive ones second; two empty lists for a missing actor.
\<close>

definition getAllAuraEffects :: "actor option \<Rightarrow> effect list \<times> effect list" where
  "getAllAuraEffects a =
     (let applicable = (case a of None \<Rightarrow> [] | Some ac \<Rightarrow> allApplicableEffects ac);
          auras = filter isAura applicable
      in (filter isActive auras, filter (\<lambda>e. \<not> isActive e) auras))"

text \<open>
  \<open>fromUuidSync\<close> on an effect identifier: the effect documents are those of the actors
  of the world.
\<close>

definition worldEffects :: "world \<Rightarrow> effect list" where
  "worldEffects w = concat (map (\<lambda>a. effects a @ allApplicableEffects a) (actors w))"

definition fromUuidSync :: "world \<Rightarrow> uuid option \<Rightarrow> effect option" where
  "fromUuidSync w u =
     (case u of
        None \<Rightarrow> None
      | Some i \<Rightarrow> find (\<lambda>e. uuid e = i) (worldEffects w))"

text \<open>
  The inner loop of \<open>getChangingSceneAuras\<close> over the matching active auras of one
  source token.
\<close>

fun scanAuraEffects ::
  "host \<Rightarrow> world \<Rightarrow> token \<Rightarrow> token \<Rightarrow> effect list \<Rightarrow> effect list \<Rightarrow>
   effect list \<times> effect list \<Rightarrow> js_error + (effect list \<times> effect list)" where
  "scanAuraEffects h w sourceToken tok currentAppliedAuras [] acc = Inr acc"
| "scanAuraEffects h w sourceToken tok currentAppliedAuras (currEffect # rest) (toRemove, toAdd) =
     (let dist = getTokenToTokenDistance h sourceToken tok None
                   (collisionTypes (system currEffect));
          currentlyApplied =
            find (\<lambda>e. origin e = Some (uuid currEffect)) currentAppliedAuras;
          removed = (case currentlyApplied of None \<Rightarrow> toRemove | Some e \<Rightarrow> toRemove @ [e])
      in if jlt (distance (system currEffect)) dist
         then scanAuraEffects h w sourceToken tok currentAppliedAuras rest (removed, toAdd)
         else
           (case executeScript h w sourceToken tok currEffect of
              Inl err \<Rightarrow> Inl err
            | Inr ok \<Rightarrow>
                if \<not> ok
                then scanAuraEffects h w sourceToken tok currentAppliedAuras rest (removed, toAdd)
                else scanAuraEffects h w sourceToken tok currentAppliedAuras rest
                       (toRemove, toAdd @ [currEffect])))"

text \<open>The \<open>reduce\<close> of \<open>getChangingSceneAuras\<close> over the tokens of the scene.\<close>

fun reduceSceneTokens ::
  "host \<Rightarrow> world \<Rightarrow> token \<Rightarrow> effect list \<Rightarrow> token list \<Rightarrow>
   effect list \<times> effect list \<Rightarrow> js_error + (effect list \<times> effect list)" where
  "reduceSceneTokens h w tok currentAppliedAuras [] acc = Inr acc"
| "reduceSceneTokens h w tok currentAppliedAuras (sourceToken # rest) (toRemove, toAdd) =
     (if token_actor w sourceToken = token_actor w tok
      then reduceSceneTokens h w tok currentAppliedAuras rest (toRemove, toAdd)
      else
        (let disp = tokenDisposition tok * tokenDisposition sourceToken;
             activeAuraEffects = fst (getAllAuraEffects (token_actor w sourceToken));
             inactiveAuraEffects = snd (getAllAuraEffects (token_actor w sourceToken));
             currentlyAppliedToRemove =
               filter (\<lambda>appliedEffect.
                 \<exists>inactiveEffect \<in> set inactiveAuraEffects.
                   origin appliedEffect = Some (uuid inactiveEffect)) currentAppliedAuras;
             toRemove1 = (if inactiveAuraEffects \<noteq> [] then toRemove @ currentlyAppliedToRemove
                          else toRemove);
             auraEffects =
               filter (\<lambda>e. disposition (system e) \<in> set [0, disp]) activeAuraEffects
         in if auraEffects = []
            then reduceSceneTokens h w tok currentAppliedAuras rest (toRemove1, toAdd)
            else
              (case scanAuraEffects h w sourceToken tok currentAppliedAuras auraEffects
                      (toRemove1, toAdd) of
                 Inl err \<Rightarrow> Inl err
               | Inr acc \<Rightarrow> reduceSceneTokens h w tok currentAppliedAuras rest acc)))"

text \<open>The applied aura effects whose origin no longer resolves, or is disabled or
  suppressed.\<close>

definition staleApplied :: "world \<Rightarrow> actor \<Rightarrow> effect list" where
  "staleApplied w a =
     filter (\<lambda>e. fromAura e \<and>
        (case fromUuidSync w (origin e) of
           None \<Rightarrow> True
         | Some sourceEffect \<Rightarrow> disabled sourceEffect \<or> isSuppressed sourceEffect))
       (appliedEffects a)"

text \<open>
  \<open>getChangingSceneAuras\<close>: the auras on the scene which should be removed from, and
  which should be added to, a token.  Reading \<open>appliedEffects\<close> of a missing actor
  raises a TypeError.
\<close>

definition getChangingSceneAuras ::
  "host \<Rightarrow> world \<Rightarrow> token \<Rightarrow> js_error + (effect list \<times> effect list)" where
  "getChangingSceneAuras h w tok =
     (case token_actor w tok of
        None \<Rightarrow> Inl (TypeError ''token.actor.appliedEffects'')
      | Some a \<Rightarrow>
          (let currentAppliedAuras = filter fromAura (appliedEffects a)
           in case reduceSceneTokens h w tok currentAppliedAuras (tokens w) ([], []) of
                Inl err \<Rightarrow> Inl err
              | Inr (sceneAurasToRemove, sceneAurasToAdd) \<Rightarrow>
                  Inr (sceneAurasToRemove @ staleApplied w a, sceneAurasToAdd)))"

section \<open>Queries and best-of replacement\<close>

text \<open>
  What a handler does that can be observed: a warning shown to the user, and the two
  queries sent to the game master's session, each with the name of the function that
  sends it.
\<close>

datatype event =
    Warn string
  | DeleteEffects string "uuid list"
  | ApplyAuraEffects string actorToEffectsMap

text \<open>The events of a run, the world it leaves, and the exception it ends with, if any.\<close>

type_synonym outcome = "event list \<times> world \<times> js_error option"

text \<open>\<open>actor.getActiveTokens(false, true)\<close>: the token documents of the actor on the scene.\<close>

definition getActiveTokens :: "world \<Rightarrow> uuid \<Rightarrow> token list" where
  "getActiveTokens w a = filter (\<lambda>t. tokenActor t = Some a) (tokens w)"

text \<open>An object used as a map with insertion-ordered keys:
  \<open>m[k] = (m[k] ?? []).concat(vs)\<close>.\<close>

definition pushAll :: "('k \<times> 'v list) list \<Rightarrow> 'k \<Rightarrow> 'v list \<Rightarrow> ('k \<times> 'v list) list" where
  "pushAll m k vs =
     (case map_of m k of
        None \<Rightarrow> m @ [(k, vs)]
      | Some old \<Rightarrow> map (\<lambda>(k', vs'). if k' = k then (k', vs' @ vs) else (k', vs')) m)"

text \<open>The effect name under which auras compete: \<open>overrideName.trim() || name\<close>.\<close>

definition resolvedName :: "effect \<Rightarrow> string" where
  "resolvedName e =
     (if trim (overrideName (system e)) \<noteq> [] then trim (overrideName (system e)) else ename e)"

text \<open>
  A plain object used as a map inherits the properties of \<open>Object.prototype\<close>: for one
  of these names \<open>acc[name] ??= []\<close> finds the inherited value and assigns nothing, and
  the \<open>push\<close> that follows raises a TypeError.  Effect names are typed by users, so the
  map keyed by them is modelled with this; document identifiers are generated by the
  engine in the form \<open>Actor.<id>\<close> and are none of these names.
\<close>

definition objectPrototypeNames :: "string list" where
  "objectPrototypeNames =
     [''constructor'', ''__defineGetter__'', ''__defineSetter__'', ''hasOwnProperty'',
      ''__lookupGetter__'', ''__lookupSetter__'', ''isPrototypeOf'',
      ''propertyIsEnumerable'', ''toString'', ''valueOf'', ''__proto__'',
      ''toLocaleString'']"

text \<open>
  \<open>Object.keys\<close> lists the keys that are array indices first, in ascending numeric
  order, and then the other keys in the order of their insertion.  An array index is the
  decimal numeral, without leading zero, of a number below \<open>2\<^sup>3\<^sup>2 - 1\<close>.
\<close>

definition isDigit :: "char \<Rightarrow> bool" where
  "isDigit c = (c \<in> set ''0123456789'')"

definition indexValue :: "string \<Rightarrow> nat" where
  "indexValue s = foldl (\<lambda>n c. 10 * n + (of_char c - 48)) 0 s"

definition isArrayIndex :: "string \<Rightarrow> bool" where
  "isArrayIndex s =
     (s \<noteq> [] \<and> list_all isDigit s \<and> (length s = 1 \<or> hd s \<noteq> CHR ''0'') \<and>
      indexValue s < 4294967295)"

definition objectEntries :: "(string \<times> 'v) list \<Rightarrow> (string \<times> 'v) list" where
  "objectEntries m =
     sort_key (\<lambda>kv. indexValue (fst kv)) (filter (\<lambda>kv. isArrayIndex (fst kv)) m) @
     filter (\<lambda>kv. \<not> isArrayIndex (fst kv)) m"

text \<open>The map from effect name to the tokens the effect is removed from.  An item has
  no \<open>getActiveTokens\<close>.\<close>

fun effectToRemovedMap ::
  "world \<Rightarrow> effect list \<Rightarrow> (string \<times> token list) list \<Rightarrow>
   js_error + (string \<times> token list) list" where
  "effectToRemovedMap w [] acc = Inr acc"
| "effectToRemovedMap w (e # rest) acc =
     (case parent e of
        ItemRef _ \<Rightarrow> Inl (TypeError ''effect.parent.getActiveTokens'')
      | ActorRef a \<Rightarrow>
          if ename e \<in> set objectPrototypeNames
          then Inl (TypeError ''acc[effect.name].push'')
          else effectToRemovedMap w rest (pushAll acc (ename e) (getActiveTokens w a)))"

definition getSourceEffect :: "actor \<Rightarrow> string \<Rightarrow> effect option" where
  "getSourceEffect a effectName =
     find (\<lambda>e. isAura e \<and> resolvedName e = effectName) (appliedEffects a)"

text \<open>The tokens emitting an active aura of the given name, each with its actor.\<close>

definition allEmitting :: "world \<Rightarrow> string \<Rightarrow> (token \<times> actor) list" where
  "allEmitting w effectName =
     concat (map (\<lambda>t.
       case token_actor w t of
         None \<Rightarrow> []
       | Some a \<Rightarrow>
           (if \<exists>e \<in> set (fst (getAllAuraEffects (Some a))). resolvedName e = effectName
            then [(t, a)] else []))
       (tokens w))"

text \<open>The trimmed best formula of an emitter's source effect, when it has one.\<close>

definition trimmedFormula :: "effect \<Rightarrow> string option" where
  "trimmedFormula e =
     (case bestFormula (system e) of
        None \<Rightarrow> None
      | Some f \<Rightarrow> (if trim f = [] then None else Some (trim f)))"

text \<open>The comparison function given to \<open>sort\<close>.\<close>

definition compareEmitters ::
  "host \<Rightarrow> string \<Rightarrow> token \<times> actor \<Rightarrow> token \<times> actor \<Rightarrow> jsnum" where
  "compareEmitters h effectName a b =
     (case getSourceEffect (snd a) effectName of
        None \<Rightarrow> Num 1
      | Some effectA \<Rightarrow>
          (case getSourceEffect (snd b) effectName of
             None \<Rightarrow> Num (- 1)
           | Some effectB \<Rightarrow>
               (case trimmedFormula effectA of
                  None \<Rightarrow> Num 1
                | Some bestFormulaA \<Rightarrow>
                    (case trimmedFormula effectB of
                       None \<Rightarrow> Num (- 1)
                     | Some bestFormulaB \<Rightarrow>
                         jsub (rollTotal h bestFormulaB (getRollData (snd b)))
                              (rollTotal h bestFormulaA (getRollData (snd a)))))))"

text \<open>
  \<open>Array.prototype.sort\<close> with a comparison function, as a stable insertion sort: each
  element in turn moves left past the elements it compares below.  \<open>insertLeft\<close> works
  on the reversed sorted prefix.
\<close>

fun insertLeft :: "('a \<Rightarrow> 'a \<Rightarrow> jsnum) \<Rightarrow> 'a \<Rightarrow> 'a list \<Rightarrow> 'a list" where
  "insertLeft cmp x [] = [x]"
| "insertLeft cmp x (y # ys) =
     (if jlt (cmp x y) (Num 0) then y # insertLeft cmp x ys else x # y # ys)"

definition js_sort :: "('a \<Rightarrow> 'a \<Rightarrow> jsnum) \<Rightarrow> 'a list \<Rightarrow> 'a list" where
  "js_sort cmp xs = rev (foldl (\<lambda>sorted x. insertLeft cmp x sorted) [] xs)"

text \<open>Whether an emitter's aura reaches the target: distance, script, apply-to-self.\<close>

definition qualifies ::
  "host \<Rightarrow> world \<Rightarrow> token \<Rightarrow> token \<Rightarrow> effect \<Rightarrow> js_error + bool" where
  "qualifies h w sourceToken targetToken eff =
     (let dist = getTokenToTokenDistance h sourceToken targetToken None
                   (collisionTypes (system eff))
      in if jlt (distance (system eff)) dist then Inr False
         else
           (case executeScript h w sourceToken targetToken eff of
              Inl err \<Rightarrow> Inl err
            | Inr ok \<Rightarrow>
                if \<not> ok then Inr False
                else Inr (\<not> (\<not> applyToSelf (system eff) \<and>
                                tokenId sourceToken = tokenId targetToken))))"

text \<open>The loop over the sorted emitters for one target token, up to its \<open>break\<close>.\<close>

fun firstReplacement ::
  "host \<Rightarrow> world \<Rightarrow> string \<Rightarrow> token \<Rightarrow> (token \<times> actor) list \<Rightarrow> js_error + effect option"
  where
  "firstReplacement h w effectName targetToken [] = Inr None"
| "firstReplacement h w effectName targetToken ((sourceToken, a) # rest) =
     (case getSourceEffect a effectName of
        None \<Rightarrow> firstReplacement h w effectName targetToken rest
      | Some eff \<Rightarrow>
          (case qualifies h w sourceToken targetToken eff of
             Inl err \<Rightarrow> Inl err
           | Inr ok \<Rightarrow>
               if ok then Inr (Some eff)
               else firstReplacement h w effectName targetToken rest))"

text \<open>The loop over the tokens an effect name was removed from.\<close>

fun replaceForTargets ::
  "host \<Rightarrow> world \<Rightarrow> string \<Rightarrow> (token \<times> actor) list \<Rightarrow> token list \<Rightarrow>
   actorToEffectsMap \<Rightarrow> js_error + actorToEffectsMap" where
  "replaceForTargets h w effectName emitters [] newBestApplyMap = Inr newBestApplyMap"
| "replaceForTargets h w effectName emitters (targetToken # rest) newBestApplyMap =
     (case firstReplacement h w effectName targetToken emitters of
        Inl err \<Rightarrow> Inl err
      | Inr None \<Rightarrow> replaceForTargets h w effectName emitters rest newBestApplyMap
      | Inr (Some eff) \<Rightarrow>
          (case token_actor w targetToken of
             None \<Rightarrow> Inl (TypeError ''targetToken.actor.uuid'')
           | Some ta \<Rightarrow>
               replaceForTargets h w effectName emitters rest
                 (pushAll newBestApplyMap (actorUuid ta) [uuid eff])))"

text \<open>The \<open>forEach\<close> over the names of the removed effects.\<close>

fun replaceForNames ::
  "host \<Rightarrow> world \<Rightarrow> (string \<times> token list) list \<Rightarrow> actorToEffectsMap \<Rightarrow>
   js_error + actorToEffectsMap" where
  "replaceForNames h w [] newBestApplyMap = Inr newBestApplyMap"
| "replaceForNames h w ((effectName, targets) # rest) newBestApplyMap =
     (let emitters = js_sort (compareEmitters h effectName) (allEmitting w effectName)
      in case replaceForTargets h w effectName emitters targets newBestApplyMap of
           Inl err \<Rightarrow> Inl err
         | Inr m \<Rightarrow> replaceForNames h w rest m)"

text \<open>
  \<open>removeAndReplaceAuras\<close>: delete the given effects, then give each token that lost an
  effect the best aura of the same name still reaching it.  The game master is read
  once at the start and is not checked before the query is sent.
\<close>

definition removeAndReplaceAuras :: "host \<Rightarrow> world \<Rightarrow> effect list \<Rightarrow> outcome" where
  "removeAndReplaceAuras h w effs =
     (case effectToRemovedMap w effs [] of
        Inl err \<Rightarrow> ([], w, Some err)
      | Inr removedMap \<Rightarrow>
          (case activeGM w of
             None \<Rightarrow> ([], w, Some (TypeError ''activeGM.query''))
           | Some gm \<Rightarrow>
               (let w1 = query_deleteEffects h (map uuid effs) w;
                    deleted = DeleteEffects ''removeAndReplaceAuras'' (map uuid effs)
                in case replaceForNames h w1 (objectEntries removedMap) [] of
                     Inl err \<Rightarrow> ([deleted], w1, Some err)
                   | Inr newBestApplyMap \<Rightarrow>
                       if newBestApplyMap = [] then ([deleted], w1, None)
                       else ([deleted,
                              ApplyAuraEffects ''removeAndReplaceAuras'' newBestApplyMap],
                             query_applyAuraEffects h newBestApplyMap w1, None))))"

section \<open>Reconciliation handlers\<close>

text \<open>\<open>Array.prototype.filter\<close> with a predicate that can throw.\<close>

fun filterE :: "('a \<Rightarrow> js_error + bool) \<Rightarrow> 'a list \<Rightarrow> js_error + 'a list" where
  "filterE p [] = Inr []"
| "filterE p (x # xs) =
     (case p x of
        Inl err \<Rightarrow> Inl err
      | Inr b \<Rightarrow>
          (case filterE p xs of
             Inl err \<Rightarrow> Inl err
           | Inr ys \<Rightarrow> Inr (if b then x # ys else ys)))"

text \<open>A \<open>Set\<close> built from a list keeps the first occurrence of each element.\<close>

definition uniq :: "'a list \<Rightarrow> 'a list" where
  "uniq xs = rev (remdups (rev xs))"

text \<open>The branch every handler takes when no game master is connected.\<close>

definition warnNoActiveGM :: "world \<Rightarrow> outcome" where
  "warnNoActiveGM w =
     (if \<not> seenWarning w
      then ([Warn ''AURAEFFECTS.NoActiveGM''], w\<lparr>seenWarning := True\<rparr>, None)
      else ([], w, None))"

text \<open>\<open>a.effects.find(e => e.origin === sourceUuid)\<close> on the actor with identifier \<open>a\<close>.\<close>

definition findByOrigin :: "world \<Rightarrow> uuid \<Rightarrow> uuid \<Rightarrow> effect option" where
  "findByOrigin w a sourceUuid =
     (case actorByUuid w a of
        None \<Rightarrow> None
      | Some ac \<Rightarrow> find (\<lambda>e. origin e = Some sourceUuid) (effects ac))"

text \<open>The actors of the tokens in range of an aura of \<open>tok\<close> that pass its script, as a
  \<open>Set\<close>.\<close>

definition inRange :: "host \<Rightarrow> world \<Rightarrow> token \<Rightarrow> effect \<Rightarrow> js_error + uuid list" where
  "inRange h w tok eff =
     (case filterE (\<lambda>t. executeScript h w tok t eff)
             (getNearbyTokens h w tok (distance (system eff)) None
                (disposition (system eff)) (collisionTypes (system eff))) of
        Inl err \<Rightarrow> Inl err
      | Inr ts \<Rightarrow> Inr (uniq (List.map_filter tokenActor ts)))"

text \<open>The actors of a range other than the token's own that hold no effect of this origin.\<close>

definition toAddTo :: "world \<Rightarrow> token \<Rightarrow> effect \<Rightarrow> uuid list \<Rightarrow> uuid list" where
  "toAddTo w tok eff rng =
     filter (\<lambda>a. Some a \<noteq> tokenActor tok \<and> findByOrigin w a (uuid eff) = None) rng"

definition addAll :: "actorToEffectsMap \<Rightarrow> uuid list \<Rightarrow> uuid \<Rightarrow> actorToEffectsMap" where
  "addAll m actorUuids effectUuid = foldl (\<lambda>acc a. pushAll acc a [effectUuid]) m actorUuids"

text \<open>The loop of \<open>createToken\<close> (and of \<open>updateToken\<close> for a token shown again) over the
  active source effects.\<close>

fun collectAdditions ::
  "host \<Rightarrow> world \<Rightarrow> token \<Rightarrow> effect list \<Rightarrow> actorToEffectsMap \<Rightarrow>
   js_error + actorToEffectsMap" where
  "collectAdditions h w tok [] m = Inr m"
| "collectAdditions h w tok (eff # rest) m =
     (if falsy (distance (system eff)) then collectAdditions h w tok rest m
      else
        (case inRange h w tok eff of
           Inl err \<Rightarrow> Inl err
         | Inr rng \<Rightarrow>
             collectAdditions h w tok rest (addAll m (toAddTo w tok eff rng) (uuid eff))))"

definition createToken :: "host \<Rightarrow> world \<Rightarrow> token \<Rightarrow> string \<Rightarrow> outcome" where
  "createToken h w tok userId =
     (if user w \<noteq> userId then ([], w, None)
      else
        (case activeGM w of
           None \<Rightarrow> warnNoActiveGM w
         | Some gm \<Rightarrow>
             (case token_actor w tok of
                None \<Rightarrow> ([], w, None)
              | Some a \<Rightarrow>
                  (case collectAdditions h w tok (fst (getAllAuraEffects (Some a))) [] of
                     Inl err \<Rightarrow> ([], w, Some err)
                   | Inr m \<Rightarrow>
                       if m = [] then ([], w, None)
                       else ([ApplyAuraEffects ''createToken'' m],
                             query_applyAuraEffects h m w, None)))))"

text \<open>The applied aura effects, on the actors of the scene's tokens that \<open>keep\<close> accepts,
  that \<open>wanted\<close> accepts.\<close>

definition sceneApplied :: "world \<Rightarrow> (token \<Rightarrow> actor \<Rightarrow> bool) \<Rightarrow> (effect \<Rightarrow> bool) \<Rightarrow> effect list"
  where
  "sceneApplied w keep wanted =
     filter (\<lambda>e. fromAura e \<and> wanted e)
       (concat (map (\<lambda>t.
          case token_actor w t of
            None \<Rightarrow> []
          | Some ac \<Rightarrow> (if keep t ac then appliedEffects ac else []))
          (tokens w)))"

definition deleteToken :: "host \<Rightarrow> world \<Rightarrow> token \<Rightarrow> string \<Rightarrow> outcome" where
  "deleteToken h w tok userId =
     (if user w \<noteq> userId then ([], w, None)
      else if \<not> hasScene w then ([], w, None)
      else
        (case token_actor w tok of
           None \<Rightarrow> ([], w, None)
         | Some a \<Rightarrow>
             (case activeGM w of
                None \<Rightarrow> warnNoActiveGM w
              | Some gm \<Rightarrow>
                  (let auraSourceUuids = map uuid (fst (getAllAuraEffects (Some a)));
                       toRemoveAppliedEffects =
                         sceneApplied w (\<lambda>t ac. ac \<noteq> a)
                           (\<lambda>e. case origin e of
                                  None \<Rightarrow> False
                                | Some u \<Rightarrow> u \<in> set auraSourceUuids)
                   in removeAndReplaceAuras h w toRemoveAppliedEffects))))"

text \<open>The updates of an \<open>updateToken\<close> hook: \<open>updates.hidden\<close> when the key is present,
  and whether the keys \<open>x\<close>, \<open>y\<close> and \<open>elevation\<close> are.\<close>

record tokenUpdates =
  upd_hidden :: "bool option"
  upd_has_x :: bool
  upd_has_y :: bool
  upd_has_elevation :: bool

text \<open>The first half of \<open>updateToken\<close>: what happens whether or not the token moves.\<close>

definition updateTokenHidden :: "host \<Rightarrow> world \<Rightarrow> token \<Rightarrow> actor \<Rightarrow> tokenUpdates \<Rightarrow> outcome" where
  "updateTokenHidden h w tok a updates =
     (if upd_hidden updates = Some True
      then
        (if \<not> hasScene w then ([], w, Some (TypeError ''canvas.scene.tokens''))
         else
           (let toRemoveSourceEffects =
                  filter (\<lambda>e. disableOnHidden (system e)) (snd (getAllAuraEffects (Some a)));
                toRemoveAppliedEffects =
                  sceneApplied w (\<lambda>t ac. tokenId t \<noteq> tokenId tok)
                    (\<lambda>e. \<exists>sourceEff \<in> set toRemoveSourceEffects.
                            origin e = Some (uuid sourceEff))
            in if toRemoveAppliedEffects \<noteq> []
               then removeAndReplaceAuras h w toRemoveAppliedEffects
               else ([], w, None)))
      else ([], w, None))"

definition updateToken :: "host \<Rightarrow> world \<Rightarrow> token \<Rightarrow> tokenUpdates \<Rightarrow> string \<Rightarrow> outcome" where
  "updateToken h w tok updates userId =
     (if user w \<noteq> userId then ([], w, None)
      else
        (case activeGM w of
           None \<Rightarrow> warnNoActiveGM w
         | Some gm \<Rightarrow>
             (case token_actor w tok of
                None \<Rightarrow> ([], w, None)
              | Some a \<Rightarrow>
                  (let activeSourceEffects = fst (getAllAuraEffects (Some a))
                   in case updateTokenHidden h w tok a updates of
                        (tr1, w1, Some err) \<Rightarrow> (tr1, w1, Some err)
                      | (tr1, w1, None) \<Rightarrow>
                          if upd_has_x updates \<or> upd_has_y updates \<or> upd_has_elevation updates
                          then (tr1, w1, None)
                          else if upd_hidden updates = Some False
                          then
                            (case collectAdditions h w1 tok activeSourceEffects [] of
                               Inl err \<Rightarrow> (tr1, w1, Some err)
                             | Inr m \<Rightarrow>
                                 if m = [] then (tr1, w1, None)
                                 else (tr1 @ [ApplyAuraEffects ''updateToken'' m],
                                       query_applyAuraEffects h m w1, None))
                          else (tr1, w1, None)))))"

text \<open>The actors in range of an aura of \<open>tok\<close> at the origin of its movement, as a \<open>Set\<close>
  (no script is run here).\<close>

definition preMoveRange :: "host \<Rightarrow> world \<Rightarrow> token \<Rightarrow> position \<Rightarrow> effect \<Rightarrow> uuid list" where
  "preMoveRange h w tok moveOrigin eff =
     uniq (List.map_filter tokenActor
       (getNearbyTokens h w tok (distance (system eff)) (Some moveOrigin)
          (disposition (system eff)) (collisionTypes (system eff))))"

text \<open>\<open>preMoveRanges\<close>, an object keyed by effect identifier: a later entry replaces an
  earlier one of the same key.\<close>

definition preMoveRanges ::
  "host \<Rightarrow> world \<Rightarrow> token \<Rightarrow> position \<Rightarrow> effect list \<Rightarrow> uuid \<Rightarrow> uuid list option" where
  "preMoveRanges h w tok moveOrigin activeSourceEffects =
     map_of (rev (map (\<lambda>eff. (uuid eff, preMoveRange h w tok moveOrigin eff))
       (filter (\<lambda>eff. \<not> falsy (distance (system eff))) activeSourceEffects)))"

text \<open>The applied effects, on any token's actor, that come from a now inactive aura.\<close>

definition additionalDeletion :: "world \<Rightarrow> uuid list \<Rightarrow> effect list" where
  "additionalDeletion w inactiveUuids =
     concat (map (\<lambda>t.
       case token_actor w t of
         None \<Rightarrow> []
       | Some ac \<Rightarrow>
           filter (\<lambda>e. case origin e of None \<Rightarrow> False | Some u \<Rightarrow> u \<in> set inactiveUuids)
             (appliedEffects ac))
       (tokens w))"

text \<open>The effects one aura of the moving token loses on this leg: those of its origin
  held by the actors in range before and not after.\<close>

definition leftRange :: "world \<Rightarrow> effect \<Rightarrow> uuid list \<Rightarrow> uuid list \<Rightarrow> effect list" where
  "leftRange w eff pre post =
     List.map_filter (\<lambda>a. findByOrigin w a (uuid eff)) (filter (\<lambda>a. a \<notin> set post) pre)"

text \<open>The second loop of \<open>moveToken\<close> over the active source effects.  The state is the
  events so far, the world, and \<open>actorToEffectsMap\<close>.\<close>

fun moveTokenLoop ::
  "host \<Rightarrow> token \<Rightarrow> (uuid \<Rightarrow> uuid list option) \<Rightarrow> uuid list \<Rightarrow> effect list \<Rightarrow>
   event list \<times> world \<times> actorToEffectsMap \<Rightarrow>
   event list \<times> world \<times> (js_error + actorToEffectsMap)" where
  "moveTokenLoop h tok pre inactiveUuids [] (tr, w, m) = (tr, w, Inr m)"
| "moveTokenLoop h tok pre inactiveUuids (eff # rest) (tr, w, m) =
     (if falsy (distance (system eff))
      then moveTokenLoop h tok pre inactiveUuids rest (tr, w, m)
      else
        (case inRange h w tok eff of
           Inl err \<Rightarrow> (tr, w, Inl err)
         | Inr postMoveRange \<Rightarrow>
             (let preRange = (case pre (uuid eff) of None \<Rightarrow> [] | Some s \<Rightarrow> s);
                  toDelete = leftRange w eff preRange postMoveRange
              in case removeAndReplaceAuras h w
                        (toDelete @ additionalDeletion w inactiveUuids) of
                   (tr1, w1, Some err) \<Rightarrow> (tr @ tr1, w1, Inl err)
                 | (tr1, w1, None) \<Rightarrow>
                     if isFinalMovementComplete tok
                     then moveTokenLoop h tok pre inactiveUuids rest
                            (tr @ tr1, w1,
                             addAll m (toAddTo w1 tok eff postMoveRange) (uuid eff))
                     else moveTokenLoop h tok pre inactiveUuids rest (tr @ tr1, w1, m))))"

text \<open>The end of \<open>moveToken\<close>: the scene delta of the moved token.\<close>

definition moveTokenDelta :: "host \<Rightarrow> world \<Rightarrow> token \<Rightarrow> actor \<Rightarrow> outcome" where
  "moveTokenDelta h w tok a =
     (case getChangingSceneAuras h w tok of
        Inl err \<Rightarrow> ([], w, Some err)
      | Inr (sceneAurasToRemove, sceneAurasToAdd) \<Rightarrow>
          (case (if sceneAurasToRemove \<noteq> []
                 then removeAndReplaceAuras h w sceneAurasToRemove
                 else ([], w, None)) of
             (tr1, w1, Some err) \<Rightarrow> (tr1, w1, Some err)
           | (tr1, w1, None) \<Rightarrow>
               if sceneAurasToAdd \<noteq> [] \<and> isFinalMovementComplete tok
               then (tr1 @ [ApplyAuraEffects ''moveToken''
                              [(actorUuid a, map uuid sceneAurasToAdd)]],
                     query_applyAuraEffects h [(actorUuid a, map uuid sceneAurasToAdd)] w1,
                     None)
               else (tr1, w1, None)))"

definition moveToken :: "host \<Rightarrow> world \<Rightarrow> token \<Rightarrow> position \<Rightarrow> string \<Rightarrow> outcome" where
  "moveToken h w tok moveOrigin userId =
     (if user w \<noteq> userId then ([], w, None)
      else
        (case activeGM w of
           None \<Rightarrow> warnNoActiveGM w
         | Some gm \<Rightarrow>
             (case token_actor w tok of
                None \<Rightarrow> ([], w, None)
              | Some a \<Rightarrow>
                  (let activeSourceEffects = fst (getAllAuraEffects (Some a));
                       inactiveUuids = map uuid (snd (getAllAuraEffects (Some a)));
                       pre = preMoveRanges h w tok moveOrigin activeSourceEffects
                   in case moveTokenLoop h tok pre inactiveUuids activeSourceEffects
                             ([], w, []) of
                        (tr1, w1, Inl err) \<Rightarrow> (tr1, w1, Some err)
                      | (tr1, w1, Inr m) \<Rightarrow>
                          (let applied =
                                 (if isFinalMovementComplete tok \<and> m \<noteq> []
                                  then ([ApplyAuraEffects ''moveToken'' m],
                                        query_applyAuraEffects h m w1)
                                  else ([], w1))
                           in case moveTokenDelta h (snd applied) tok a of
                                (tr2, w2, err) \<Rightarrow> (tr1 @ fst applied @ tr2, w2, err))))))"

text \<open>\<open>effect.parent instanceof Actor ? effect.parent : effect.parent?.parent\<close>.\<close>

definition owningActor :: "effect \<Rightarrow> uuid option" where
  "owningActor e = (case parent e of ActorRef a \<Rightarrow> Some a | ItemRef a \<Rightarrow> a)"

text \<open>The applied aura effects of this origin on the other actors of the scene.\<close>

definition appliedFrom :: "world \<Rightarrow> uuid option \<Rightarrow> uuid \<Rightarrow> effect list" where
  "appliedFrom w owner sourceUuid =
     sceneApplied w (\<lambda>t ac. Some (actorUuid ac) \<noteq> owner) (\<lambda>e. origin e = Some sourceUuid)"

definition deleteActiveEffect :: "host \<Rightarrow> world \<Rightarrow> effect \<Rightarrow> string \<Rightarrow> outcome" where
  "deleteActiveEffect h w eff userId =
     (if user w \<noteq> userId then ([], w, None)
      else if \<not> isAura eff then ([], w, None)
      else if \<not> hasScene w then ([], w, None)
      else
        (case owningActor eff of
           None \<Rightarrow> ([], w, None)
         | Some a \<Rightarrow>
             (case activeGM w of
                None \<Rightarrow> warnNoActiveGM w
              | Some gm \<Rightarrow>
                  removeAndReplaceAuras h w (appliedFrom w (Some a) (uuid eff)))))"

text \<open>The updates of an \<open>updateActiveEffect\<close> hook: \<open>updates.disabled\<close> when the key is
  present, and whether the key \<open>system\<close> is.\<close>

record effectUpdates =
  upd_disabled :: "bool option"
  upd_has_system :: bool

text \<open>\<open>Object.fromEntries\<close> of one-element lists: a key appears once.\<close>

definition fromEntries :: "uuid list \<Rightarrow> uuid \<Rightarrow> actorToEffectsMap" where
  "fromEntries actorUuids effectUuid = map (\<lambda>a. (a, [effectUuid])) (uniq actorUuids)"

definition updateActiveEffect ::
  "host \<Rightarrow> world \<Rightarrow> effect \<Rightarrow> effectUpdates \<Rightarrow> string \<Rightarrow> outcome" where
  "updateActiveEffect h w eff updates userId =
     (if user w \<noteq> userId then ([], w, None)
      else if \<not> isAura eff then ([], w, None)
      else if upd_disabled updates = None \<and> \<not> upd_has_system updates then ([], w, None)
      else if \<not> hasScene w then ([], w, None)
      else
        (case (case owningActor eff of None \<Rightarrow> [] | Some a \<Rightarrow> getActiveTokens w a) of
           [] \<Rightarrow> ([], w, None)
         | tok # _ \<Rightarrow>
             (case activeGM w of
                None \<Rightarrow> warnNoActiveGM w
              | Some gm \<Rightarrow>
                  (let toRemoveAppliedEffects = appliedFrom w (owningActor eff) (uuid eff)
                   in if upd_disabled updates \<noteq> Some True
                      then
                        (if falsy (distance (system eff)) then ([], w, None)
                         else
                           (case filterE (\<lambda>t. executeScript h w tok t eff)
                                   (filter (\<lambda>t. tokenId t \<noteq> tokenId tok \<and>
                                                 token_actor w t \<noteq> token_actor w tok)
                                      (getNearbyTokens h w tok (distance (system eff)) None
                                         (disposition (system eff))
                                         (collisionTypes (system eff)))) of
                              Inl err \<Rightarrow> ([], w, Some err)
                            | Inr passing \<Rightarrow>
                                (let shouldHave = List.map_filter tokenActor passing;
                                     kept = filter (\<lambda>e. target e \<notin> ActorRef ` set shouldHave)
                                              toRemoveAppliedEffects;
                                     m = fromEntries
                                           (filter (\<lambda>a. findByOrigin w a (uuid eff) = None)
                                              shouldHave) (uuid eff);
                                     applied = (if m \<noteq> []
                                                then ([ApplyAuraEffects ''updateActiveEffect'' m],
                                                      query_applyAuraEffects h m w)
                                                else ([], w))
                                 in if kept \<noteq> []
                                    then (case removeAndReplaceAuras h (snd applied) kept of
                                            (tr, w1, err) \<Rightarrow> (fst applied @ tr, w1, err))
                                    else (fst applied, snd applied, None))))
                      else if toRemoveAppliedEffects \<noteq> []
                      then removeAndReplaceAuras h w toRemoveAppliedEffects
                      else ([], w, None)))))"

text \<open>The loop of \<open>addRemoveEffect\<close> over the active source effects of the actor.  The
  state is \<open>actorToEffectsMap\<close> and \<open>toDelete\<close>.\<close>

fun addRemoveLoop ::
  "host \<Rightarrow> world \<Rightarrow> token \<Rightarrow> effect list \<Rightarrow> actorToEffectsMap \<times> effect list \<Rightarrow>
   js_error + (actorToEffectsMap \<times> effect list)" where
  "addRemoveLoop h w mainToken [] acc = Inr acc"
| "addRemoveLoop h w mainToken (sourceEffect # rest) (m, toDelete) =
     (let nearby = getNearbyTokens h w mainToken (distance (system sourceEffect)) None
                     (disposition (system sourceEffect))
                     (collisionTypes (system sourceEffect))
      in if nearby = [] then addRemoveLoop h w mainToken rest (m, toDelete)
         else
           (case filterE (\<lambda>t. if tokenId t = tokenId mainToken then Inr False
                                else executeScript h w mainToken t sourceEffect) nearby of
              Inl err \<Rightarrow> Inl err
            | Inr shouldHave \<Rightarrow>
                (let actorUuids =
                       filter (\<lambda>a. findByOrigin w a (uuid sourceEffect) = None)
                         (List.map_filter tokenActor shouldHave);
                     shouldNotHave =
                       filter (\<lambda>t. tokenId t \<notin> tokenId ` set shouldHave) nearby;
                     badEffects =
                       List.map_filter (\<lambda>t.
                         case tokenActor t of
                           None \<Rightarrow> None
                         | Some a \<Rightarrow> findByOrigin w a (uuid sourceEffect)) shouldNotHave
                 in addRemoveLoop h w mainToken rest
                      (addAll m actorUuids (uuid sourceEffect), toDelete @ badEffects))))"

text \<open>The additions of the scene delta in \<open>addRemoveEffect\<close>: every effect to add but
  the one the created or deleted effect comes from.\<close>

definition addSceneAuras ::
  "actorToEffectsMap \<Rightarrow> uuid \<Rightarrow> effect \<Rightarrow> effect list \<Rightarrow> actorToEffectsMap" where
  "addSceneAuras m mainActor eff sceneAurasToAdd =
     foldl (\<lambda>acc addEffect.
        if Some (uuid addEffect) = origin eff then acc
        else pushAll acc mainActor [uuid addEffect]) m sceneAurasToAdd"

definition addRemoveEffect :: "host \<Rightarrow> world \<Rightarrow> effect \<Rightarrow> string \<Rightarrow> outcome" where
  "addRemoveEffect h w eff userId =
     (case target eff of
        ItemRef _ \<Rightarrow> ([], w, None)
      | ActorRef targetUuid \<Rightarrow>
          if \<not> modifiesActor eff then ([], w, None)
          else if fromAura eff then ([], w, None)
          else if user w \<noteq> userId then ([], w, None)
          else
            (case activeGM w of
               None \<Rightarrow> warnNoActiveGM w
             | Some gm \<Rightarrow>
                 (case getActiveTokens w targetUuid of
                    [] \<Rightarrow> ([], w, None)
                  | mainToken # _ \<Rightarrow>
                      (case addRemoveLoop h w mainToken
                              (fst (getAllAuraEffects (actorByUuid w targetUuid)))
                              ([], []) of
                         Inl err \<Rightarrow> ([], w, Some err)
                       | Inr (m, toDelete) \<Rightarrow>
                           (case getChangingSceneAuras h w mainToken of
                              Inl err \<Rightarrow> ([], w, Some err)
                            | Inr (sceneAurasToRemove, sceneAurasToAdd) \<Rightarrow>
                                (let m1 = addSceneAuras m targetUuid eff sceneAurasToAdd;
                                     applied =
                                       (if m1 \<noteq> []
                                        then ([ApplyAuraEffects ''addRemoveEffect'' m1],
                                              query_applyAuraEffects h m1 w)
                                        else ([], w))
                                 in case removeAndReplaceAuras h (snd applied)
                                           (toDelete @ sceneAurasToRemove) of
                                      (tr, w1, err) \<Rightarrow> (fst applied @ tr, w1, err)))))))"

section \<open>The queries, as the game master's session answers them\<close>

text \<open>
  Modelled from the spec: the two queries \<open>auraeffects.applyAuraEffects\<close> and
  \<open>auraeffects.deleteEffects\<close> of \<open>queries.mjs\<close>, whose code is not at hand.  "Apply
  aura effects" takes a mapping from target-actor identifier to the list of
  source-effect identifiers to clone onto it; the clone is tagged with an origin
  reference (the source effect's identifier) and with the flag marking it as
  aura-derived, and is named by the override name when one is set.  "Delete effects"
  takes the list of applied-effect identifiers to remove.
\<close>

text \<open>An identifier for a new effect of an actor: longer than every identifier in use.\<close>

definition freshUuid :: "world \<Rightarrow> actor \<Rightarrow> uuid" where
  "freshUuid w a =
     actorUuid a @ ''.ActiveEffect.'' @
     replicate (Suc (foldr (\<lambda>e n. max (length (uuid e)) n) (worldEffects w @ effects a) 0))
       CHR ''+''"

definition cloneOnto :: "world \<Rightarrow> actor \<Rightarrow> uuid \<Rightarrow> actor" where
  "cloneOnto w a sourceUuid =
     (case fromUuidSync w (Some sourceUuid) of
        None \<Rightarrow> a
      | Some src \<Rightarrow>
          (let clone = src\<lparr>uuid := freshUuid w a,
                           ename := resolvedName src,
                           origin := Some sourceUuid,
                           fromAura := True,
                           parent := ActorRef (actorUuid a),
                           target := ActorRef (actorUuid a)\<rparr>
           in a\<lparr>effects := effects a @ [clone],
                appliedEffects := appliedEffects a @ (if isActive clone then [clone] else []),
                allApplicableEffects := allApplicableEffects a @ [clone]\<rparr>))"

definition spec_applyAuraEffects :: "actorToEffectsMap \<Rightarrow> world \<Rightarrow> world" where
  "spec_applyAuraEffects m w =
     foldl (\<lambda>w1 (actorId, effectUuids).
        w1\<lparr>actors :=
             map (\<lambda>a. if actorUuid a = actorId
                       then foldl (cloneOnto w1) a effectUuids else a) (actors w1)\<rparr>)
       w m"

definition spec_deleteEffects :: "uuid list \<Rightarrow> world \<Rightarrow> world" where
  "spec_deleteEffects effectUuids w =
     w\<lparr>actors :=
         map (\<lambda>a. a\<lparr>effects := filter (\<lambda>e. uuid e \<notin> set effectUuids) (effects a),
                     appliedEffects :=
                       filter (\<lambda>e. uuid e \<notin> set effectUuids) (appliedEffects a),
                     allApplicableEffects :=
                       filter (\<lambda>e. uuid e \<notin> set effectUuids) (allApplicableEffects a)\<rparr>)
           (actors w)\<rparr>"

section \<open>Hooks\<close>

text \<open>
  The hooks \<open>registerHooks\<close> binds the handlers to.  \<open>deleteActiveEffect\<close> has two
  handlers, called in the order of their registration.
\<close>

datatype hook =
    CreateActiveEffect effect string
  | DeleteActiveEffect effect string
  | CreateToken token string
  | DeleteToken token string
  | UpdateToken token tokenUpdates string
  | MoveToken token position string
  | UpdateActiveEffect effect effectUpdates string

definition andThen :: "outcome \<Rightarrow> (world \<Rightarrow> outcome) \<Rightarrow> outcome" where
  "andThen first second =
     (case first of
        (tr1, w1, err1) \<Rightarrow>
          (case second w1 of
             (tr2, w2, err2) \<Rightarrow>
               (tr1 @ tr2, w2, (case err1 of None \<Rightarrow> err2 | Some e \<Rightarrow> Some e))))"

fun fire :: "host \<Rightarrow> world \<Rightarrow> hook \<Rightarrow> outcome" where
  "fire h w (CreateActiveEffect e u) = addRemoveEffect h w e u"
| "fire h w (DeleteActiveEffect e u) =
     andThen (addRemoveEffect h w e u) (\<lambda>w1. deleteActiveEffect h w1 e u)"
| "fire h w (CreateToken t u) = createToken h w t u"
| "fire h w (DeleteToken t u) = deleteToken h w t u"
| "fire h w (UpdateToken t upd u) = updateToken h w t upd u"
| "fire h w (MoveToken t p u) = moveToken h w t p u"
| "fire h w (UpdateActiveEffect e upd u) = updateActiveEffect h w e upd u"

text \<open>A session: hooks fired one after the other; a handler that throws ends alone.\<close>

fun session :: "host \<Rightarrow> world \<Rightarrow> hook list \<Rightarrow> event list \<times> world" where
  "session h w [] = ([], w)"
| "session h w (k # ks) =
     (case fire h w k of
        (tr, w1, err) \<Rightarrow> (case session h w1 ks of (tr2, w2) \<Rightarrow> (tr @ tr2, w2)))"

text \<open>The two ways a handler ends without a game master: silently, or with the one
  warning of the session.\<close>

definition skipped :: "world \<Rightarrow> outcome \<Rightarrow> bool" where
  "skipped w out =
     (out = ([], w, None) \<or>
      (\<not> seenWarning w \<and>
       out = ([Warn ''AURAEFFECTS.NoActiveGM''], w\<lparr>seenWarning := True\<rparr>, None)))"

section \<open>A small scene used for evaluation\<close>

text \<open>
  A host with a gridless scene of 5 distance units per 100 pixels.  Paths are measured
  along the axes, a wall stands between the points left and right of \<open>x = 500\<close> for the
  collision type \<open>move\<close>, the quadtree reports every token, and three script bodies
  are known to the \<open>Function\<close> constructor: one that returns true, one that returns
  false and one that throws when called; every other body is a syntax error.
\<close>

definition demo_measurePath :: "elevatedPoint \<Rightarrow> elevatedPoint \<Rightarrow> jsnum" where
  "demo_measurePath a b =
     Num ((\<bar>ep_x a - ep_x b\<bar> + \<bar>ep_y a - ep_y b\<bar> + \<bar>ep_elevation a - ep_elevation b\<bar>) / 20)"

definition demo_center :: "coords \<Rightarrow> real \<times> real" where
  "demo_center c =
     (case c of
        Point px py \<Rightarrow> (px, py)
      | Offset i j \<Rightarrow> (100 * real_of_int i + 50, 100 * real_of_int j + 50))"

definition demo_backends :: "string \<Rightarrow> (elevatedPoint \<Rightarrow> elevatedPoint \<Rightarrow> bool) option" where
  "demo_backends ct =
     (if ct = ''move''
      then Some (\<lambda>a b. (ep_x a < 500 \<and> 500 < ep_x b) \<or> (ep_x b < 500 \<and> 500 < ep_x a))
      else None)"

definition demo_tokenCenter :: "token \<Rightarrow> position option \<Rightarrow> coords" where
  "demo_tokenCenter t orig =
     (case orig of
        None \<Rightarrow> Point (center_x t) (center_y t)
      | Some p \<Rightarrow> Point (pos_x p + 50 * tok_width t) (pos_y p + 50 * tok_width t))"

definition demo_offsets :: "token \<Rightarrow> position option \<Rightarrow> coords list" where
  "demo_offsets t orig =
     (case orig of
        None \<Rightarrow> [Offset \<lfloor>tok_x t / 100\<rfloor> \<lfloor>tok_y t / 100\<rfloor>]
      | Some p \<Rightarrow> [Offset \<lfloor>pos_x p / 100\<rfloor> \<lfloor>pos_y p / 100\<rfloor>])"

definition demo_Function :: "string \<Rightarrow> js_error + scriptFunction" where
  "demo_Function body =
     (if body = ''return Boolean(true);'' then Inr (\<lambda>a t s r. Inr True)
      else if body = ''return Boolean(false);'' then Inr (\<lambda>a t s r. Inr False)
      else if body = ''return Boolean(actor.nothing.here);''
      then Inr (\<lambda>a t s r. Inl (TypeError ''actor.nothing.here''))
      else Inl (SyntaxError body))"

definition demo_rollTotal :: "string \<Rightarrow> rollData \<Rightarrow> jsnum" where
  "demo_rollTotal formula rd = (case map_of rd formula of None \<Rightarrow> Num 0 | Some v \<Rightarrow> v)"

definition demo_host :: host where
  "demo_host =
     \<lparr>isGridless = True, grid_distance = Num 5, grid_size = Num 100,
      measurePath = demo_measurePath, grid_getCenterPoint = demo_center,
      polygonBackends = demo_backends, token_getCenterPoint = demo_tokenCenter,
      getOccupiedGridSpaceOffsets = demo_offsets,
      quadtree_getObjects = (\<lambda>w rect. tokens w),
      Function = demo_Function, rollTotal = demo_rollTotal,
      query_applyAuraEffects = spec_applyAuraEffects,
      query_deleteEffects = spec_deleteEffects\<rparr>"

text \<open>The same host with a square grid.\<close>

definition demo_grid :: host where
  "demo_grid = demo_host\<lparr>isGridless := False\<rparr>"

definition demo_system :: aura_system where
  "demo_system =
     \<lparr>distance = Num 30, disposition = 0, collisionTypes = [], script = None,
      applyToSelf = False, overrideName = [], bestFormula = None,
      disableOnHidden = False\<rparr>"

text \<open>An aura source effect on an actor, and a plain token of an actor at a place.\<close>

definition demo_aura :: "uuid \<Rightarrow> string \<Rightarrow> uuid \<Rightarrow> effect" where
  "demo_aura u n a =
     \<lparr>uuid = u, ename = n, etype = ''auraeffects.aura'', origin = None, fromAura = False,
      disabled = False, isSuppressed = False, modifiesActor = True,
      parent = ActorRef a, target = ActorRef a, system = demo_system\<rparr>"

definition demo_movement :: movement where
  "demo_movement =
     \<lparr>mstate = ''stopped'', pending_distance = None, destination_x = 0,
      destination_y = 0, destination_elevation = 0\<rparr>"

definition demo_token :: "string \<Rightarrow> uuid option \<Rightarrow> real \<Rightarrow> real \<Rightarrow> token" where
  "demo_token i a px py =
     \<lparr>tokenId = i, tokenActor = a, tokenDisposition = 1, tok_x = px, tok_y = py,
      tok_elevation = Some 0, tok_width = 1, center_x = px + 50, center_y = py + 50,
      externalRadius = 50, tokenMovement = demo_movement\<rparr>"

definition demo_actor :: "uuid \<Rightarrow> effect list \<Rightarrow> actor" where
  "demo_actor u es =
     \<lparr>actorUuid = u, actorName = u, effects = es,
      appliedEffects = filter isActive es, allApplicableEffects = es, getRollData = []\<rparr>"

definition demo_world :: "actor list \<Rightarrow> token list \<Rightarrow> world" where
  "demo_world as ts =
     \<lparr>actors = as, tokens = ts, activeGM = Some ''gm'', user = ''gm'',
      hasScene = True, seenWarning = False\<rparr>"

text \<open>An effect with a conditional script.\<close>

definition scripted :: "effect \<Rightarrow> string \<Rightarrow> effect" where
  "scripted e s = e\<lparr>system := (system e)\<lparr>script := Some s\<rparr>\<rparr>"

text \<open>
  Two actors \<open>A\<close> and \<open>B\<close> with one token each, 200 pixels (10 units) apart, and a token
  without an actor; \<open>B\<close> carries an aura of 30 units.
\<close>

definition tokA :: token where "tokA = demo_token ''tA'' (Some ''A'') 100 100"

definition tokB :: token where "tokB = demo_token ''tB'' (Some ''B'') 300 100"

definition tokNone :: token where "tokNone = demo_token ''tN'' None 200 100"

definition auraB :: effect where "auraB = demo_aura ''B.E'' ''Bless'' ''B''"

definition pair_world :: "effect \<Rightarrow> world" where
  "pair_world e = demo_world [demo_actor ''A'' [], demo_actor ''B'' [e]] [tokA, tokB, tokNone]"

text \<open>The same scene with no game master connected, and some hooks fired there.\<close>

definition noGM_world :: world where
  "noGM_world = (pair_world auraB)\<lparr>activeGM := None\<rparr>"

definition noGM_hooks :: "hook list" where
  "noGM_hooks =
     [CreateToken tokA ''gm'', CreateToken tokB ''gm'',
      MoveToken tokB \<lparr>pos_x = 0, pos_y = 0, pos_elevation = None\<rparr> ''gm'',
      DeleteActiveEffect auraB ''gm'',
      UpdateActiveEffect auraB \<lparr>upd_disabled = Some True, upd_has_system = False\<rparr> ''gm'']"

text \<open>
  An applied effect of an origin on an actor.  In the three scenes below \<open>A\<close> holds an
  applied effect of \<open>B\<close>'s aura, and the aura is deleted, disabled, or disabled while \<open>B\<close>
  has no token on the scene.
\<close>

definition demo_child :: "uuid \<Rightarrow> uuid \<Rightarrow> uuid \<Rightarrow> string \<Rightarrow> effect" where
  "demo_child u src a n =
     (demo_aura u n a)\<lparr>etype := ''base'', origin := Some src, fromAura := True\<rparr>"

definition childA :: effect where "childA = demo_child ''A.c'' ''B.E'' ''A'' ''Bless''"

definition deleted_world :: world where
  "deleted_world = demo_world [demo_actor ''A'' [childA], demo_actor ''B'' []] [tokA, tokB]"








text \<open>The update of one entry of a map of lists.\<close>

definition bump :: "'k \<Rightarrow> 'v list \<Rightarrow> 'k \<times> 'v list \<Rightarrow> 'k \<times> 'v list" where
  "bump k vs kv = (if fst kv = k then (fst kv, snd kv @ vs) else kv)"


definition auraC :: effect where "auraC = demo_aura ''C.E'' ''Bless'' ''C''"


definition tokC :: token where "tokC = demo_token ''tC'' (Some ''C'') 5300 100"









subsection \<open>A token in the middle of a queued movement\<close>

text \<open>The token of actor \<open>B\<close> on a leg of a longer movement: its movement is not stopped
  and distance is still pending.  In \<open>lingering_world\<close> it arrives next to \<open>A\<close>, which
  still holds an effect of a disabled aura of \<open>B\<close> with the name of \<open>B\<close>'s active aura; in
  \<open>leaving_world\<close> it has left \<open>A\<close>, which holds an effect of \<open>B\<close>'s active aura.\<close>

definition movingAway :: movement where
  "movingAway =
     \<lparr>mstate = ''pending'', pending_distance = Some (Num 10), destination_x = 900,
      destination_y = 100, destination_elevation = 0\<rparr>"




definition tokBfar :: token where
  "tokBfar = (demo_token ''tB'' (Some ''B'') 5000 100)\<lparr>tokenMovement := movingAway\<rparr>"


definition nearOrigin :: position where
  "nearOrigin = \<lparr>pos_x = 300, pos_y = 100, pos_elevation = Some 0\<rparr>"


definition leaving_world :: world where
  "leaving_world =
     demo_world [demo_actor ''A'' [childA], demo_actor ''B'' [auraB]] [tokA, tokBfar]"




text \<open>
  The ranges of an aura of a token, said without the code's helpers.  A token of the
  scene is a candidate when it has an actor, its disposition is the one the aura asks
  for, and its distance from the source, measured from the given origin or else from
  where the source is, is within the radius.  An actor is in the origin range when one
  of the tokens the spatial index reports for the source is a candidate of its at the
  origin of the movement, and in the destination range when one is a candidate where
  the source now is and passes the script.
\<close>

definition candidate ::
  "host \<Rightarrow> world \<Rightarrow> token \<Rightarrow> position option \<Rightarrow> effect \<Rightarrow> token \<Rightarrow> bool" where
  "candidate h w source orig eff t =
     (token_actor w t \<noteq> None \<and>
      (if disposition (system eff) < 0
       then tokenDisposition source * tokenDisposition t = - 1
       else if disposition (system eff) > 0
       then tokenDisposition source = tokenDisposition t
       else True) \<and>
      jle (getTokenToTokenDistance h source t orig (collisionTypes (system eff)))
          (distance (system eff)))"




subsection \<open>What a token should hold\<close>

text \<open>An aura of a source token passes for a target when its radius is not below their
  distance and its script holds; the auras of a source token that match the relative
  disposition of the target; and, over the tokens of the scene that are not of the
  target's actor, the matching auras that pass.\<close>

definition passes :: "host \<Rightarrow> world \<Rightarrow> token \<Rightarrow> token \<Rightarrow> effect \<Rightarrow> bool" where
  "passes h w sourceToken tok e =
     (\<not> jlt (distance (system e))
          (getTokenToTokenDistance h sourceToken tok None (collisionTypes (system e))) \<and>
      executeScript h w sourceToken tok e = Inr True)"

definition matching :: "world \<Rightarrow> token \<Rightarrow> token \<Rightarrow> effect list" where
  "matching w sourceToken tok =
     filter (\<lambda>e. disposition (system e) \<in>
                   set [0, tokenDisposition tok * tokenDisposition sourceToken])
       (fst (getAllAuraEffects (token_actor w sourceToken)))"

definition shouldHave :: "host \<Rightarrow> world \<Rightarrow> token \<Rightarrow> effect list" where
  "shouldHave h w tok =
     concat (map (\<lambda>s. if token_actor w s = token_actor w tok then []
                       else filter (passes h w s tok) (matching w s tok)) (tokens w))"

text \<open>Applying a delta to the actor of a token: the effects to remove are deleted, then
  the effects to add are cloned onto the actor, by the two queries of the host.\<close>

definition applyDelta :: "host \<Rightarrow> world \<Rightarrow> token \<Rightarrow> effect list \<times> effect list \<Rightarrow> world" where
  "applyDelta h w tok delta =
     (case tokenActor tok of
        None \<Rightarrow> w
      | Some a \<Rightarrow>
          query_applyAuraEffects h [(a, map uuid (snd delta))]
            (query_deleteEffects h (map uuid (fst delta)) w))"

text \<open>What the scene makes a token lose: an applied effect has lapsed for a source
  token when its origin is one of that token's inactive auras, and is failing when it is
  the first applied effect whose origin is a matching aura of that token which does not
  pass.\<close>

definition lapsed :: "world \<Rightarrow> token \<Rightarrow> effect \<Rightarrow> bool" where
  "lapsed w s e =
     (\<exists>i \<in> set (snd (getAllAuraEffects (token_actor w s))). origin e = Some (uuid i))"

definition failing :: "host \<Rightarrow> world \<Rightarrow> token \<Rightarrow> token \<Rightarrow> effect list \<Rightarrow> effect \<Rightarrow> bool" where
  "failing h w s tok cur e =
     (\<exists>c \<in> set (matching w s tok).
        \<not> passes h w s tok c \<and> find (\<lambda>x. origin x = Some (uuid c)) cur = Some e)"

text \<open>What is asked of a world for it to be the one a delta was applied to: every
  aura-derived applied effect of the actor was there before, was not to be removed and
  has its origin resolving as before, or has its origin among the effects to add and
  resolving to an active effect.  The applied effects have distinct origins; and an
  identifier in the list to add names no inactive aura, and no matching aura that does
  not pass, of any token of another actor.\<close>

definition distinctOrigins :: "effect list \<Rightarrow> bool" where
  "distinctOrigins cur = (\<forall>x \<in> set cur. \<forall>y \<in> set cur. origin x = origin y \<longrightarrow> x = y)"

definition unambiguous :: "host \<Rightarrow> world \<Rightarrow> token \<Rightarrow> effect list \<Rightarrow> bool" where
  "unambiguous h w tok toAdd =
     (\<forall>p \<in> set toAdd. \<forall>s \<in> set (tokens w).
        token_actor w s \<noteq> token_actor w tok \<longrightarrow>
        (\<forall>i \<in> set (snd (getAllAuraEffects (token_actor w s))). uuid i \<noteq> uuid p) \<and>
        (\<forall>c \<in> set (matching w s tok). uuid c = uuid p \<longrightarrow> passes h w s tok c))"

definition resolvesActive :: "world \<Rightarrow> uuid option \<Rightarrow> bool" where
  "resolvesActive w u =
     (case fromUuidSync w u of
        None \<Rightarrow> False
      | Some sourceEffect \<Rightarrow> \<not> disabled sourceEffect \<and> \<not> isSuppressed sourceEffect)"

definition deltaApplied ::
  "world \<Rightarrow> world \<Rightarrow> actor \<Rightarrow> actor \<Rightarrow> effect list \<Rightarrow> effect list \<Rightarrow> bool" where
  "deltaApplied w w' a a' toRemove toAdd =
     (\<forall>e' \<in> set (filter fromAura (appliedEffects a')).
        (e' \<in> set (appliedEffects a) \<and> e' \<notin> set toRemove \<and>
         fromUuidSync w' (origin e') = fromUuidSync w (origin e')) \<or>
        ((\<exists>p \<in> set toAdd. origin e' = Some (uuid p)) \<and> resolvesActive w' (origin e')))"

text \<open>\<open>A\<close> holds an effect of the aura of \<open>C\<close>, who is far away, and stands in the aura
  of \<open>B\<close>; and a scene where \<open>B\<close> has a second token, far away.\<close>

definition driftedA :: effect where "driftedA = demo_child ''A.c'' ''C.E'' ''A'' ''Bless''"

definition drifted_world :: world where
  "drifted_world =
     demo_world [demo_actor ''A'' [driftedA], demo_actor ''B'' [auraB], demo_actor ''C'' [auraC]]
       [tokA, tokB, tokC]"

definition tokB2 :: token where "tokB2 = demo_token ''tB2'' (Some ''B'') 5000 100"

definition twin_world :: world where
  "twin_world = demo_world [demo_actor ''A'' [], demo_actor ''B'' [auraB]] [tokA, tokB, tokB2]"

subsection \<open>The best replacement\<close>

text \<open>
  The replacement of a removed effect, said without the code's loops.  The emitters of
  a name are the tokens, with their actors, whose actor has an active aura of that name
  among its applicable effects, in the order of the scene's tokens.  An emitter is
  eligible for a target when its source effect of that name is found, reaches the
  target, passes its script, and is applied to itself or comes from another token.  The
  best replacement is the source effect of the first eligible emitter once the emitters
  are sorted by tier and descending total, emitters of equal rank keeping their order.
\<close>

definition emitters :: "world \<Rightarrow> string \<Rightarrow> (token \<times> actor) list" where
  "emitters w effectName =
     List.map_filter (\<lambda>t.
       case token_actor w t of
         None \<Rightarrow> None
       | Some a \<Rightarrow>
           (if \<exists>e \<in> set (allApplicableEffects a).
                 isAura e \<and> \<not> disabled e \<and> \<not> isSuppressed e \<and> resolvedName e = effectName
            then Some (t, a) else None))
       (tokens w)"







subsection \<open>Additions\<close>

text \<open>The pairs of a target actor and a source effect that an \<open>actorToEffectsMap\<close>
  lists.\<close>

definition pairs :: "('k \<times> 'v list) list \<Rightarrow> ('k \<times> 'v) set" where
  "pairs m = set (concat (map (\<lambda>kv. map (Pair (fst kv)) (snd kv)) m))"

text \<open>The two-token scene once \<open>A\<close> holds the effect of \<open>B\<close>'s aura; the update of a
  token shown again; and the update of an effect whose system data changed.\<close>

definition settled_world :: world where
  "settled_world = demo_world [demo_actor ''A'' [childA], demo_actor ''B'' [auraB]] [tokA, tokB]"

definition shownAgain :: tokenUpdates where
  "shownAgain = \<lparr>upd_hidden = Some False, upd_has_x = False, upd_has_y = False,
                  upd_has_elevation = False\<rparr>"

definition systemChanged :: effectUpdates where
  "systemChanged = \<lparr>upd_disabled = None, upd_has_system = True\<rparr>"


section \<open>Geometry: collisions and token distance\<close>





subsection \<open>\<open>Math.min\<close> is a minimum\<close>

lemma Math_min_single: "Math_min [d] = d"
  by (cases d) (simp_all add: Math_min_def jmin2_def)

lemma jsub_zero: "jsub m (Num 0) = m"
  by (cases m) (simp_all add: jsub_def)

lemma jmin2_cases:
  "a \<noteq> NaN \<Longrightarrow> b \<noteq> NaN \<Longrightarrow> jmin2 a b = a \<and> jle a b \<or> jmin2 a b = b \<and> jle b a"
  by (cases a; cases b) (auto simp: jmin2_def)

lemma jle_trans: "jle a b \<Longrightarrow> jle b c \<Longrightarrow> jle a c"
  by (cases a; cases b; cases c) auto

lemma jle_refl: "a \<noteq> NaN \<Longrightarrow> jle a a"
  by (cases a) auto

lemma Math_min_notNaN: "NaN \<notin> set ds \<Longrightarrow> Math_min ds \<noteq> NaN"
  by (induction ds) (auto simp: Math_min_def jmin2_def)

lemma Math_min_lower: "NaN \<notin> set ds \<Longrightarrow> d \<in> set ds \<Longrightarrow> jle (Math_min ds) d"
proof (induction ds)
  case Nil
  then show ?case by simp
next
  case (Cons x xs)
  have nx: "x \<noteq> NaN" and nm: "Math_min xs \<noteq> NaN"
    using Cons.prems(1) Math_min_notNaN [of xs] by auto
  have step: "Math_min (x # xs) = jmin2 x (Math_min xs)"
    by (simp add: Math_min_def)
  from jmin2_cases [OF nx nm]
  have le1: "jle (Math_min (x # xs)) x" and le2: "jle (Math_min (x # xs)) (Math_min xs)"
    using step jle_refl [OF nx] jle_refl [OF nm] by auto
  show ?case
  proof (cases "d = x")
    case True
    then show ?thesis using le1 by simp
  next
    case False
    then have "d \<in> set xs" using Cons.prems(2) by simp
    then have "jle (Math_min xs) d" using Cons.IH Cons.prems(1) by simp
    then show ?thesis using le2 jle_trans by blast
  qed
qed

lemma Math_min_attained: "NaN \<notin> set ds \<Longrightarrow> ds \<noteq> [] \<Longrightarrow> Math_min ds \<in> set ds"
proof (induction ds)
  case Nil
  then show ?case by simp
next
  case (Cons x xs)
  have nx: "x \<noteq> NaN" and nm: "Math_min xs \<noteq> NaN"
    using Cons.prems(1) Math_min_notNaN [of xs] by auto
  have step: "Math_min (x # xs) = jmin2 x (Math_min xs)"
    by (simp add: Math_min_def)
  show ?case
  proof (cases "xs = []")
    case True
    then show ?thesis using Math_min_single [of x] by simp
  next
    case False
    then have "Math_min xs \<in> set xs" using Cons.IH Cons.prems(1) by simp
    then show ?thesis using step jmin2_cases [OF nx nm] by auto
  qed
qed

subsection \<open>Token to token distance\<close>

lemma gridless_distance:
  "isGridless h \<Longrightarrow>
   getTokenToTokenDistance h tokenA tokenB orig cts =
     jsub (getDistance h
             (elevated (grid_getCenterPoint h (token_getCenterPoint h tokenA orig))
                (elevationA tokenA orig))
             (elevated (grid_getCenterPoint h (token_getCenterPoint h tokenB None))
                (elevationB tokenB)) cts)
          (jmul (jdiv (grid_distance h) (grid_size h)) (Num (externalRadius tokenA)))"
  by (simp add: getTokenToTokenDistance_def Math_min_single)

lemma gridded_distance:
  "\<not> isGridless h \<Longrightarrow> grid_distance h = Num gd \<Longrightarrow> grid_size h = Num gs \<Longrightarrow> gs \<noteq> 0 \<Longrightarrow>
   getTokenToTokenDistance h tokenA tokenB orig cts =
     Math_min
       [getDistance h (elevated (grid_getCenterPoint h offsetA) (elevationA tokenA orig))
          (elevated (grid_getCenterPoint h offsetB) (elevationB tokenB)) cts.
        offsetA \<leftarrow> getOccupiedGridSpaceOffsets h tokenA orig,
        offsetB \<leftarrow> getOccupiedGridSpaceOffsets h tokenB None]"
  by (simp add: getTokenToTokenDistance_def jsub_zero)

text \<open>
  C5, as stated, fails: on a gridless scene the distance is negative when the two centres
  are closer than the source token's external radius.  Two tokens whose centres are 20
  pixels (1 unit) apart, the first with an external radius of 50 pixels (2.5 units).
\<close>

theorem tokenDistance_negative_counterexample:
  "isGridless demo_host \<and>
   getTokenToTokenDistance demo_host (demo_token ''a'' None 100 100)
     (demo_token ''b'' None 120 100) None [] = Num (- 3 / 2) \<and>
   \<not> jle (Num 0)
       (getTokenToTokenDistance demo_host (demo_token ''a'' None 100 100)
          (demo_token ''b'' None 120 100) None [])"
  by (simp add: getTokenToTokenDistance_def demo_host_def demo_token_def
      demo_tokenCenter_def demo_center_def elevationA_def elevationB_def elevated_def
      demo_measurePath_def Math_min_def jmin2_def jsub_def)

text \<open>
  C5, amended.  On a gridless scene the distance is the measured centre-to-centre
  distance (\<open>Infinity\<close> on a collision) minus the source token's external radius times
  \<open>grid.distance / grid.size\<close>; when both are finite it is non-negative exactly when the
  centre distance is at least that correction.  On a gridded scene (finite grid
  distance, finite non-zero grid size) it is \<open>Math.min\<close> over the cross product of the
  two tokens' occupied cell centres, with no correction; \<open>Math.min\<close> of distances none
  of which is NaN is below each of them and, when there is one, is one of them.  The
  elevation of the first token is that of the origin override when it gives one, else
  the token's own.
\<close>

theorem getTokenToTokenDistance_formula:
  fixes h :: host and tokenA tokenB :: token
  defines "centres orig cts \<equiv>
     getDistance h
       (elevated (grid_getCenterPoint h (token_getCenterPoint h tokenA orig))
          (elevationA tokenA orig))
       (elevated (grid_getCenterPoint h (token_getCenterPoint h tokenB None))
          (elevationB tokenB)) cts"
  defines "correction \<equiv> jmul (jdiv (grid_distance h) (grid_size h)) (Num (externalRadius tokenA))"
  defines "cells orig cts \<equiv>
     [getDistance h (elevated (grid_getCenterPoint h offsetA) (elevationA tokenA orig))
        (elevated (grid_getCenterPoint h offsetB) (elevationB tokenB)) cts.
      offsetA \<leftarrow> getOccupiedGridSpaceOffsets h tokenA orig,
      offsetB \<leftarrow> getOccupiedGridSpaceOffsets h tokenB None]"
  shows
  "(isGridless h \<longrightarrow>
      getTokenToTokenDistance h tokenA tokenB orig cts = jsub (centres orig cts) correction \<and>
      (\<forall>d c. centres orig cts = Num d \<and> correction = Num c \<longrightarrow>
         jle (Num 0) (getTokenToTokenDistance h tokenA tokenB orig cts) = (c \<le> d))) \<and>
   (\<not> isGridless h \<and> grid_distance h = Num gd \<and> grid_size h = Num gs \<and> gs \<noteq> 0 \<longrightarrow>
      getTokenToTokenDistance h tokenA tokenB orig cts = Math_min (cells orig cts) \<and>
      (NaN \<notin> set (cells orig cts) \<longrightarrow>
         (\<forall>d \<in> set (cells orig cts). jle (Math_min (cells orig cts)) d) \<and>
         (cells orig cts \<noteq> [] \<longrightarrow> Math_min (cells orig cts) \<in> set (cells orig cts)))) \<and>
   (\<forall>p e. orig = Some p \<and> pos_elevation p = Some e \<longrightarrow> elevationA tokenA orig = e) \<and>
   (\<forall>e. orig = None \<and> tok_elevation tokenA = Some e \<longrightarrow> elevationA tokenA orig = e)"
proof -
  have gridless: "isGridless h \<Longrightarrow>
      getTokenToTokenDistance h tokenA tokenB orig cts = jsub (centres orig cts) correction"
    unfolding centres_def correction_def by (rule gridless_distance)
  have sign: "isGridless h \<Longrightarrow> centres orig cts = Num d \<Longrightarrow> correction = Num c \<Longrightarrow>
      jle (Num 0) (getTokenToTokenDistance h tokenA tokenB orig cts) = (c \<le> d)" for d c
    using gridless by (simp add: jsub_def)
  have gridded: "\<not> isGridless h \<Longrightarrow> grid_distance h = Num gd \<Longrightarrow> grid_size h = Num gs \<Longrightarrow>
      gs \<noteq> 0 \<Longrightarrow> getTokenToTokenDistance h tokenA tokenB orig cts = Math_min (cells orig cts)"
    unfolding cells_def by (rule gridded_distance)
  have elev: "orig = Some p \<Longrightarrow> pos_elevation p = Some e \<Longrightarrow> elevationA tokenA orig = e"
    for p e by (simp add: elevationA_def)
  have elev0: "orig = None \<Longrightarrow> tok_elevation tokenA = Some e \<Longrightarrow> elevationA tokenA orig = e"
    for e by (simp add: elevationA_def)
  have part1: "isGridless h \<longrightarrow>
      getTokenToTokenDistance h tokenA tokenB orig cts = jsub (centres orig cts) correction \<and>
      (\<forall>d c. centres orig cts = Num d \<and> correction = Num c \<longrightarrow>
         jle (Num 0) (getTokenToTokenDistance h tokenA tokenB orig cts) = (c \<le> d))"
    using gridless sign by (intro impI conjI allI) auto
  have part2: "\<not> isGridless h \<and> grid_distance h = Num gd \<and> grid_size h = Num gs \<and> gs \<noteq> 0 \<longrightarrow>
      getTokenToTokenDistance h tokenA tokenB orig cts = Math_min (cells orig cts) \<and>
      (NaN \<notin> set (cells orig cts) \<longrightarrow>
         (\<forall>d \<in> set (cells orig cts). jle (Math_min (cells orig cts)) d) \<and>
         (cells orig cts \<noteq> [] \<longrightarrow> Math_min (cells orig cts) \<in> set (cells orig cts)))"
    using gridded Math_min_lower [of "cells orig cts"] Math_min_attained [of "cells orig cts"]
    by (intro impI conjI ballI) auto
  have part3: "\<forall>p e. orig = Some p \<and> pos_elevation p = Some e \<longrightarrow> elevationA tokenA orig = e"
    using elev by blast
  have part4: "\<forall>e. orig = None \<and> tok_elevation tokenA = Some e \<longrightarrow> elevationA tokenA orig = e"
    using elev0 by blast
  show ?thesis
    using part1 part2 part3 part4 by (intro conjI)
qed

theorem getTokenToTokenDistance_formula_witness:
  "isGridless demo_host \<and>
   getTokenToTokenDistance demo_host (demo_token ''a'' None 100 100)
     (demo_token ''b'' None 220 100) None [] = Num (7 / 2) \<and>
   jle (Num 0) (getTokenToTokenDistance demo_host (demo_token ''a'' None 100 100)
     (demo_token ''b'' None 220 100) None []) \<and>
   \<not> isGridless demo_grid \<and> grid_distance demo_grid = Num 5 \<and> grid_size demo_grid = Num 100 \<and>
   getTokenToTokenDistance demo_grid (demo_token ''a'' None 100 100)
     (demo_token ''b'' None 320 100)
     (Some \<lparr>pos_x = 0, pos_y = 100, pos_elevation = Some 10\<rparr>) [] = Num (31 / 2) \<and>
   elevationA (demo_token ''a'' None 100 100)
     (Some \<lparr>pos_x = 0, pos_y = 100, pos_elevation = Some 10\<rparr>) = 10 \<and>
   elevationA (demo_token ''a'' None 100 100) None = 0"
  using getTokenToTokenDistance_formula [of demo_host "demo_token ''a'' None 100 100"
          "demo_token ''b'' None 220 100" None "[]" 5 100]
        getTokenToTokenDistance_formula [of demo_grid "demo_token ''a'' None 100 100"
          "demo_token ''b'' None 320 100"
          "Some \<lparr>pos_x = 0, pos_y = 100, pos_elevation = Some 10\<rparr>" "[]" 5 100]
  by (simp add: demo_grid_def demo_host_def demo_token_def
      demo_tokenCenter_def demo_center_def demo_offsets_def elevationA_def elevationB_def
      elevated_def demo_measurePath_def Math_min_def jmin2_def jsub_def)

section \<open>Evaluation on the small scene\<close>

lemma demo_fields [simp]:
  "isGridless demo_host" "grid_distance demo_host = Num 5" "grid_size demo_host = Num 100"
  "measurePath demo_host = demo_measurePath" "grid_getCenterPoint demo_host = demo_center"
  "polygonBackends demo_host = demo_backends" "token_getCenterPoint demo_host = demo_tokenCenter"
  "getOccupiedGridSpaceOffsets demo_host = demo_offsets"
  "quadtree_getObjects demo_host = (\<lambda>w rect. tokens w)"
  "Function demo_host = demo_Function" "rollTotal demo_host = demo_rollTotal"
  "query_applyAuraEffects demo_host = spec_applyAuraEffects"
  "query_deleteEffects demo_host = spec_deleteEffects"
  by (simp_all add: demo_host_def)

lemma nearby_demo:
  "getNearbyTokens demo_host (pair_world e) tokB (Num 30) None 0 [] = [tokA, tokB]"
  by (simp add: getNearbyTokens_def getGenerallyWithin_def pair_world_def demo_world_def
      token_actor_def actorByUuid_def tokA_def tokB_def tokNone_def demo_token_def demo_actor_def
      getTokenToTokenDistance_def demo_tokenCenter_def demo_center_def elevationA_def
      elevationB_def elevated_def demo_measurePath_def Math_min_def jmin2_def jsub_def)

lemma tokA_actor: "token_actor (pair_world e) tokA = Some (demo_actor ''A'' [])"
  by (simp add: token_actor_def actorByUuid_def pair_world_def demo_world_def tokA_def
      demo_token_def demo_actor_def)

lemma trim_demo: "trim ''1 +'' = ''1 +''"
  by (simp add: trim_def isSpace_def)

section \<open>Predicate evaluation: what is caught and what is not\<close>

lemma executeScript_blank:
  "token_actor w tok = Some a \<Longrightarrow>
   trim (case script (system eff) of None \<Rightarrow> [] | Some s \<Rightarrow> s) = [] \<Longrightarrow>
   executeScript h w sourceToken tok eff = Inr True"
  by (simp add: executeScript_def)

lemma executeScript_runtime_error:
  "token_actor w tok = Some a \<Longrightarrow> token_actor w sourceToken = Some sa \<Longrightarrow>
   script (system eff) = Some s \<Longrightarrow> trim s \<noteq> [] \<Longrightarrow>
   Function h (''return Boolean('' @ s @ '');'') = Inr f \<Longrightarrow>
   f a tok sourceToken (getRollData a) = Inl err \<Longrightarrow>
   executeScript h w sourceToken tok eff = Inr True \<and>
   executeScript_log h w sourceToken tok eff = Some (actorName sa, ename eff, err)"
  by (simp add: executeScript_def executeScript_log_def)

lemma executeScript_compiled:
  "token_actor w tok = Some a \<Longrightarrow> token_actor w sourceToken = Some sa \<Longrightarrow>
   script (system eff) = Some s \<Longrightarrow>
   Function h (''return Boolean('' @ s @ '');'') = Inr f \<Longrightarrow>
   \<exists>b. executeScript h w sourceToken tok eff = Inr b"
  by (auto simp: executeScript_def split: sum.splits)

lemma executeScript_actorless:
  "token_actor w tok = None \<Longrightarrow>
   executeScript h w sourceToken tok eff = Inl (TypeError ''actor.getRollData'')"
  by (simp add: executeScript_def)

lemma getNearbyTokens_actor:
  "tok \<in> set (getNearbyTokens h w source radius orig disp cts) \<Longrightarrow> token_actor w tok \<noteq> None"
  by (auto simp: getNearbyTokens_def split: if_splits)

text \<open>
  C8: the script text is compiled by the \<open>Function\<close> constructor before the \<open>try\<close> block
  is entered, so a script that does not parse makes \<open>executeScript\<close> throw the syntax
  error to its caller; nothing is logged and no value is returned.  (An empty or blank
  script gives true, and an error raised while the compiled script runs is caught,
  logged and turned into true: \<open>executeScript_blank\<close>, \<open>executeScript_runtime_error\<close>.)
\<close>

theorem executeScript_syntax_error_escapes:
  "token_actor w tok = Some a \<Longrightarrow> script (system eff) = Some s \<Longrightarrow> trim s \<noteq> [] \<Longrightarrow>
   Function h (''return Boolean('' @ s @ '');'') = Inl err \<Longrightarrow>
   executeScript h w sourceToken tok eff = Inl err \<and>
   executeScript_log h w sourceToken tok eff = None"
  by (simp add: executeScript_def executeScript_log_def)

theorem executeScript_syntax_error_escapes_witness:
  "token_actor (pair_world (scripted auraB ''1 +'')) tokA = Some (demo_actor ''A'' []) \<and>
   script (system (scripted auraB ''1 +'')) = Some ''1 +'' \<and> trim ''1 +'' \<noteq> [] \<and>
   Function demo_host (''return Boolean('' @ ''1 +'' @ '');'') =
     Inl (SyntaxError ''return Boolean(1 +);'') \<and>
   executeScript demo_host (pair_world (scripted auraB ''1 +'')) tokB tokA
     (scripted auraB ''1 +'') = Inl (SyntaxError ''return Boolean(1 +);'')"
  using executeScript_syntax_error_escapes [of "pair_world (scripted auraB ''1 +'')" tokA
          "demo_actor ''A'' []" "scripted auraB ''1 +''" "''1 +''" demo_host
          "SyntaxError ''return Boolean(1 +);''" tokB]
        tokA_actor [of "scripted auraB ''1 +''"] trim_demo
  by (simp add: scripted_def demo_Function_def)

text \<open>
  C10: a candidate that \<open>getNearbyTokens\<close> returns has an actor, so reading its roll data
  does not fail (\<open>getNearbyTokens_actor\<close>; without an actor \<open>executeScript\<close> throws,
  \<open>executeScript_actorless\<close>).  The \<open>catch\<close> block is still not the only error path for
  such a candidate: a script that does not parse makes \<open>executeScript\<close> throw.
\<close>

theorem nearby_candidate_syntax_error:
  "tok \<in> set (getNearbyTokens h w source radius orig disp cts) \<Longrightarrow>
   script (system eff) = Some s \<Longrightarrow> trim s \<noteq> [] \<Longrightarrow>
   Function h (''return Boolean('' @ s @ '');'') = Inl err \<Longrightarrow>
   (\<exists>a. token_actor w tok = Some a) \<and> executeScript h w source tok eff = Inl err"
  using getNearbyTokens_actor [of tok h w source radius orig disp cts]
  by (auto simp: executeScript_def)

theorem nearby_candidate_syntax_error_witness:
  "tokA \<in> set (getNearbyTokens demo_host (pair_world (scripted auraB ''1 +'')) tokB
             (Num 30) None 0 []) \<and>
   script (system (scripted auraB ''1 +'')) = Some ''1 +'' \<and> trim ''1 +'' \<noteq> [] \<and>
   Function demo_host (''return Boolean('' @ ''1 +'' @ '');'') =
     Inl (SyntaxError ''return Boolean(1 +);'') \<and>
   token_actor (pair_world (scripted auraB ''1 +'')) tokA = Some (demo_actor ''A'' []) \<and>
   executeScript demo_host (pair_world (scripted auraB ''1 +'')) tokB tokA
     (scripted auraB ''1 +'') = Inl (SyntaxError ''return Boolean(1 +);'')"
proof -
  have mem: "tokA \<in> set (getNearbyTokens demo_host (pair_world (scripted auraB ''1 +'')) tokB
             (Num 30) None 0 [])"
    by (simp add: nearby_demo)
  have scr: "script (system (scripted auraB ''1 +'')) = Some ''1 +''"
    by (simp add: scripted_def)
  have tr: "trim ''1 +'' \<noteq> []"
    by (simp add: trim_demo)
  have syn: "Function demo_host (''return Boolean('' @ ''1 +'' @ '');'') =
     Inl (SyntaxError ''return Boolean(1 +);'')"
    by (simp add: demo_Function_def)
  show ?thesis
    using nearby_candidate_syntax_error [OF mem scr tr syn] mem scr tr syn tokA_actor by simp
qed

section \<open>No game master: nothing is changed, one warning is shown\<close>

lemma skipped_warn: "skipped w (warnNoActiveGM w)"
  by (simp add: skipped_def warnNoActiveGM_def)

lemma skipped_nothing: "skipped w ([], w, None)"
  by (simp add: skipped_def)

lemma skipped_addRemoveEffect: "activeGM w = None \<Longrightarrow> skipped w (addRemoveEffect h w e u)"
  by (simp add: addRemoveEffect_def skipped_warn skipped_nothing split: doc_ref.splits)

lemma skipped_createToken: "activeGM w = None \<Longrightarrow> skipped w (createToken h w t u)"
  by (simp add: createToken_def skipped_warn skipped_nothing)

lemma skipped_deleteToken: "activeGM w = None \<Longrightarrow> skipped w (deleteToken h w t u)"
  by (simp add: deleteToken_def skipped_warn skipped_nothing split: option.splits)

lemma skipped_updateToken: "activeGM w = None \<Longrightarrow> skipped w (updateToken h w t upd u)"
  by (simp add: updateToken_def skipped_warn skipped_nothing)

lemma skipped_moveToken: "activeGM w = None \<Longrightarrow> skipped w (moveToken h w t p u)"
  by (simp add: moveToken_def skipped_warn skipped_nothing)

lemma skipped_updateActiveEffect:
  "activeGM w = None \<Longrightarrow> skipped w (updateActiveEffect h w e upd u)"
  by (simp add: updateActiveEffect_def skipped_warn skipped_nothing split: list.splits)

lemma skipped_deleteActiveEffect:
  "activeGM w = None \<Longrightarrow> skipped w (deleteActiveEffect h w e u)"
  by (simp add: deleteActiveEffect_def skipped_warn skipped_nothing split: option.splits)

lemma skipped_andThen:
  assumes "skipped w out1" and "\<And>w1. activeGM w1 = None \<Longrightarrow> skipped w1 (f w1)"
    and "activeGM w = None"
  shows "skipped w (andThen out1 f)"
proof -
  from assms(1) consider
      (quiet) "out1 = ([], w, None)"
    | (warned) "\<not> seenWarning w"
        "out1 = ([Warn ''AURAEFFECTS.NoActiveGM''], w\<lparr>seenWarning := True\<rparr>, None)"
    by (auto simp: skipped_def)
  then show ?thesis
  proof cases
    case quiet
    then show ?thesis using assms(2) [OF assms(3)] by (auto simp: skipped_def andThen_def)
  next
    case warned
    have "skipped (w\<lparr>seenWarning := True\<rparr>) (f (w\<lparr>seenWarning := True\<rparr>))"
      using assms(2) [of "w\<lparr>seenWarning := True\<rparr>"] assms(3) by simp
    then show ?thesis using warned by (auto simp: skipped_def andThen_def)
  qed
qed

lemma fire_skipped: "activeGM w = None \<Longrightarrow> skipped w (fire h w k)"
proof (cases k)
  case (DeleteActiveEffect e u)
  assume gm: "activeGM w = None"
  show ?thesis
    unfolding DeleteActiveEffect fire.simps
    by (rule skipped_andThen [OF skipped_addRemoveEffect [OF gm] _ gm])
       (rule skipped_deleteActiveEffect)
qed (simp_all add: skipped_addRemoveEffect skipped_createToken
       skipped_deleteToken skipped_updateToken skipped_moveToken skipped_updateActiveEffect)

lemma session_skipped:
  "activeGM w = None \<Longrightarrow> skipped w (fst (session h w ks), snd (session h w ks), None)"
proof (induction ks arbitrary: w)
  case Nil
  then show ?case by (simp add: skipped_def)
next
  case (Cons k ks)
  from fire_skipped [OF Cons.prems, of h k] consider
      (quiet) "fire h w k = ([], w, None)"
    | (warned) "\<not> seenWarning w"
        "fire h w k = ([Warn ''AURAEFFECTS.NoActiveGM''], w\<lparr>seenWarning := True\<rparr>, None)"
    by (auto simp: skipped_def)
  then show ?case
  proof cases
    case quiet
    then show ?thesis using Cons.IH [OF Cons.prems] by (simp split: prod.splits)
  next
    case warned
    have "skipped (w\<lparr>seenWarning := True\<rparr>)
            (fst (session h (w\<lparr>seenWarning := True\<rparr>) ks),
             snd (session h (w\<lparr>seenWarning := True\<rparr>) ks), None)"
      using Cons.IH [of "w\<lparr>seenWarning := True\<rparr>"] Cons.prems by simp
    then show ?thesis using warned by (auto simp: skipped_def split: prod.splits)
  qed
qed

text \<open>
  C9.  With no game master connected, each of the seven handlers ends without an
  exception and without a query, leaves the world as it is but for the \<open>seenWarning\<close>
  flag, and shows the warning only if it was not shown before; over any sequence of
  hooks fired in that state the warning is shown at most once and no query is sent.
\<close>

theorem no_active_GM_no_mutation:
  assumes "activeGM w = None"
  shows "(\<forall>out \<in> {addRemoveEffect h w e u, createToken h w t u, deleteToken h w t u,
                   updateToken h w t tu u, moveToken h w t p u,
                   updateActiveEffect h w e eu u, deleteActiveEffect h w e u}.
            out = ([], w, None) \<or>
            (\<not> seenWarning w \<and>
             out = ([Warn ''AURAEFFECTS.NoActiveGM''], w\<lparr>seenWarning := True\<rparr>, None))) \<and>
         (session h w ks = ([], w) \<or>
          (\<not> seenWarning w \<and>
           session h w ks = ([Warn ''AURAEFFECTS.NoActiveGM''], w\<lparr>seenWarning := True\<rparr>)))"
proof -
  have handlers: "skipped w (addRemoveEffect h w e u)" "skipped w (createToken h w t u)"
    "skipped w (deleteToken h w t u)" "skipped w (updateToken h w t tu u)"
    "skipped w (moveToken h w t p u)" "skipped w (updateActiveEffect h w e eu u)"
    "skipped w (deleteActiveEffect h w e u)"
    using assms
    by (simp_all add: skipped_addRemoveEffect skipped_createToken skipped_deleteToken
        skipped_updateToken skipped_moveToken skipped_updateActiveEffect
        skipped_deleteActiveEffect)
  have all: "skipped w (fst (session h w ks), snd (session h w ks), None)"
    using session_skipped [OF assms] .
  show ?thesis
    using handlers all by (auto simp: skipped_def prod_eq_iff)
qed

theorem no_active_GM_no_mutation_witness:
  "activeGM noGM_world = None \<and>
   moveToken demo_host noGM_world tokB \<lparr>pos_x = 0, pos_y = 0, pos_elevation = None\<rparr> ''gm'' =
     ([Warn ''AURAEFFECTS.NoActiveGM''], noGM_world\<lparr>seenWarning := True\<rparr>, None) \<and>
   session demo_host noGM_world noGM_hooks =
     ([Warn ''AURAEFFECTS.NoActiveGM''], noGM_world\<lparr>seenWarning := True\<rparr>)"
proof -
  have gm: "activeGM noGM_world = None" by (simp add: noGM_world_def)
  have seen: "\<not> seenWarning noGM_world"
    by (simp add: noGM_world_def pair_world_def demo_world_def)
  have usr: "user noGM_world = ''gm''"
    by (simp add: noGM_world_def pair_world_def demo_world_def)
  have mv: "moveToken demo_host noGM_world tokB \<lparr>pos_x = 0, pos_y = 0, pos_elevation = None\<rparr> ''gm''
      \<noteq> ([], noGM_world, None)"
    using gm seen usr by (simp add: moveToken_def warnNoActiveGM_def)
  have ses: "session demo_host noGM_world noGM_hooks \<noteq> ([], noGM_world)"
    using gm seen usr
    by (simp add: noGM_hooks_def createToken_def warnNoActiveGM_def split: prod.splits)
  show ?thesis
    using no_active_GM_no_mutation [OF gm, of demo_host auraB "''gm''" tokB
        "\<lparr>upd_hidden = None, upd_has_x = False, upd_has_y = False, upd_has_elevation = False\<rparr>"
        "\<lparr>pos_x = 0, pos_y = 0, pos_elevation = None\<rparr>"
        "\<lparr>upd_disabled = None, upd_has_system = False\<rparr>" noGM_hooks]
      gm mv ses by auto
qed

section \<open>Cleanup when a source effect is deleted, disabled or suppressed\<close>











section \<open>Best-of replacement\<close>


lemma length_insertLeft: "length (insertLeft cmp x ys) = Suc (length ys)"
  by (induction ys) auto


lemma foldl_insertLeft_length:
  "length (foldl (\<lambda>sorted x. insertLeft cmp x sorted) acc xs) = length acc + length xs"
  by (induction xs arbitrary: acc) (auto simp: length_insertLeft)


lemma js_sort_length: "length (js_sort cmp xs) = length xs"
  by (simp add: js_sort_def foldl_insertLeft_length)














lemma pushAll_alt:
  "pushAll m k vs = (if k \<in> fst ` set m then map (bump k vs) m else m @ [(k, vs)])"
proof (cases "map_of m k")
  case None
  then have "k \<notin> fst ` set m" by (simp add: map_of_eq_None_iff)
  then show ?thesis using None by (simp add: pushAll_def)
next
  case (Some old)
  then have "map_of m k \<noteq> None" by simp
  then have "k \<in> fst ` set m" by (simp add: map_of_eq_None_iff)
  moreover have "(\<lambda>(k', vs'). if k' = k then (k', vs' @ vs) else (k', vs')) = bump k vs"
    by (rule ext) (simp add: bump_def split: prod.splits)
  ultimately show ?thesis using Some by (simp add: pushAll_def)
qed














lemma find_SomeD: "find P xs = Some x \<Longrightarrow> x \<in> set xs \<and> P x"
  by (induction xs) (auto split: if_splits)









section \<open>Token movement\<close>


lemma removeAndReplaceAuras_events:
  "ev \<in> set (fst (removeAndReplaceAuras h w effs)) \<Longrightarrow>
   (\<exists>us. ev = DeleteEffects ''removeAndReplaceAuras'' us) \<or>
   (\<exists>m. ev = ApplyAuraEffects ''removeAndReplaceAuras'' m)"
  by (auto simp: removeAndReplaceAuras_def Let_def split: sum.splits option.splits if_splits)










text \<open>The ranges the loop compares are the origin range and the destination range.\<close>

lemma set_uniq: "set (uniq xs) = set xs"
  by (simp add: uniq_def)



lemma tokenActor_of_candidate:
  "candidate h w tok orig eff t \<Longrightarrow> \<exists>x. tokenActor t = Some x"
  by (cases "tokenActor t") (auto simp: candidate_def token_actor_def)









section \<open>The scene delta of a token\<close>

text \<open>The list of additions only grows by the auras that pass, and the list of removals
  is taken from the applied aura effects of the target.\<close>

lemma scanAuraEffects_result:
  "scanAuraEffects h w s tok cur effs (rem0, add0) = Inr (rem1, add1) \<Longrightarrow>
   add1 = add0 @ filter (passes h w s tok) effs \<and> set rem1 \<subseteq> set rem0 \<union> set cur"
proof (induction effs arbitrary: rem0 add0)
  case Nil
  then show ?case by simp
next
  case (Cons e effs)
  let ?removed = "case find (\<lambda>x. origin x = Some (uuid e)) cur of
                    None \<Rightarrow> rem0 | Some x \<Rightarrow> rem0 @ [x]"
  have sub: "set ?removed \<subseteq> set rem0 \<union> set cur"
    by (auto split: option.splits dest: find_Some_iff [THEN iffD1] simp: in_set_conv_nth)
  show ?case
  proof (cases "jlt (distance (system e))
                  (getTokenToTokenDistance h s tok None (collisionTypes (system e)))")
    case True
    then have "scanAuraEffects h w s tok cur effs (?removed, add0) = Inr (rem1, add1)"
      using Cons.prems by (simp add: Let_def)
    from Cons.IH [OF this] sub True show ?thesis by (auto simp: passes_def)
  next
    case False
    show ?thesis
    proof (cases "executeScript h w s tok e")
      case (Inl err)
      then show ?thesis using Cons.prems False by (simp add: Let_def)
    next
      case (Inr ok)
      show ?thesis
      proof (cases ok)
        case True
        then have "scanAuraEffects h w s tok cur effs (rem0, add0 @ [e]) = Inr (rem1, add1)"
          using Cons.prems False Inr by (simp add: Let_def)
        from Cons.IH [OF this] False Inr True show ?thesis by (auto simp: passes_def)
      next
        case no: False
        then have "scanAuraEffects h w s tok cur effs (?removed, add0) = Inr (rem1, add1)"
          using Cons.prems False Inr by (simp add: Let_def)
        from Cons.IH [OF this] sub False Inr no show ?thesis by (auto simp: passes_def)
      qed
    qed
  qed
qed

lemma reduceSceneTokens_result:
  "reduceSceneTokens h w tok cur toks (rem0, add0) = Inr (rem1, add1) \<Longrightarrow>
   add1 = add0 @ concat (map (\<lambda>s. if token_actor w s = token_actor w tok then []
                                    else filter (passes h w s tok) (matching w s tok)) toks) \<and>
   set rem1 \<subseteq> set rem0 \<union> set cur"
proof (induction toks arbitrary: rem0 add0)
  case Nil
  then show ?case by simp
next
  case (Cons s toks)
  show ?case
  proof (cases "token_actor w s = token_actor w tok")
    case True
    then have "reduceSceneTokens h w tok cur toks (rem0, add0) = Inr (rem1, add1)"
      using Cons.prems by simp
    from Cons.IH [OF this] True show ?thesis by simp
  next
    case False
    let ?inactive = "snd (getAllAuraEffects (token_actor w s))"
    let ?rem = "if ?inactive \<noteq> []
                then rem0 @ filter (\<lambda>appliedEffect. \<exists>inactiveEffect \<in> set ?inactive.
                       origin appliedEffect = Some (uuid inactiveEffect)) cur
                else rem0"
    have sub: "set ?rem \<subseteq> set rem0 \<union> set cur" by auto
    show ?thesis
    proof (cases "matching w s tok = []")
      case True
      then have "reduceSceneTokens h w tok cur toks (?rem, add0) = Inr (rem1, add1)"
        using Cons.prems False by (simp add: Let_def matching_def)
      from Cons.IH [OF this] sub True False show ?thesis by auto
    next
      case some: False
      show ?thesis
      proof (cases "scanAuraEffects h w s tok cur (matching w s tok) (?rem, add0)")
        case (Inl err)
        then show ?thesis using Cons.prems False some by (simp add: Let_def matching_def)
      next
        case (Inr acc)
        obtain rem2 add2 where acc: "acc = (rem2, add2)" by (cases acc)
        have r: "reduceSceneTokens h w tok cur toks (rem2, add2) = Inr (rem1, add1)"
          using Cons.prems False some Inr acc by (simp add: Let_def matching_def)
        have sc: "add2 = add0 @ filter (passes h w s tok) (matching w s tok) \<and>
                  set rem2 \<subseteq> set ?rem \<union> set cur"
          using scanAuraEffects_result [of h w s tok cur "matching w s tok" ?rem add0 rem2 add2]
            Inr acc by simp
        from Cons.IH [OF r] sc sub False show ?thesis by auto
      qed
    qed
  qed
qed

lemma getChangingSceneAuras_result:
  assumes "getChangingSceneAuras h w tok = Inr (toRemove, toAdd)"
  shows "toAdd = shouldHave h w tok"
    and "\<exists>a. token_actor w tok = Some a \<and>
           set toRemove \<subseteq> set (filter fromAura (appliedEffects a))"
proof -
  obtain a where a: "token_actor w tok = Some a"
    using assms by (auto simp: getChangingSceneAuras_def split: option.splits)
  let ?cur = "filter fromAura (appliedEffects a)"
  obtain rem1 add1 where r: "reduceSceneTokens h w tok ?cur (tokens w) ([], []) = Inr (rem1, add1)"
    and res: "toRemove = rem1 @ staleApplied w a" "toAdd = add1"
    using assms a by (auto simp: getChangingSceneAuras_def Let_def split: sum.splits)
  from reduceSceneTokens_result [OF r]
  have add: "add1 = shouldHave h w tok" and sub: "set rem1 \<subseteq> set ?cur"
    by (auto simp: shouldHave_def)
  show "toAdd = shouldHave h w tok" using add res by simp
  have "set (staleApplied w a) \<subseteq> set ?cur" by (auto simp: staleApplied_def)
  then show "\<exists>a. token_actor w tok = Some a \<and>
           set toRemove \<subseteq> set (filter fromAura (appliedEffects a))"
    using a sub res by auto
qed

lemma shouldHave_cong:
  assumes toks: "tokens w' = tokens w"
    and same: "\<forall>s \<in> set (tokens w).
                 (token_actor w' s = token_actor w' tok) = (token_actor w s = token_actor w tok)"
    and auras: "\<forall>s \<in> set (tokens w). token_actor w s \<noteq> token_actor w tok \<longrightarrow>
                 getAllAuraEffects (token_actor w' s) = getAllAuraEffects (token_actor w s)"
    and scripts: "\<forall>s \<in> set (tokens w). \<forall>e \<in> set (matching w s tok).
                 executeScript h w' s tok e = executeScript h w s tok e"
  shows "shouldHave h w' tok = shouldHave h w tok"
proof -
  have "(if token_actor w' s = token_actor w' tok then []
         else filter (passes h w' s tok) (matching w' s tok)) =
        (if token_actor w s = token_actor w tok then []
         else filter (passes h w s tok) (matching w s tok))" if s: "s \<in> set (tokens w)" for s
  proof (cases "token_actor w s = token_actor w tok")
    case True
    then show ?thesis using same s by simp
  next
    case False
    then have m: "matching w' s tok = matching w s tok"
      using auras s by (simp add: matching_def)
    have "filter (passes h w' s tok) (matching w s tok) =
          filter (passes h w s tok) (matching w s tok)"
      using scripts s by (intro filter_cong) (auto simp: passes_def)
    then show ?thesis using False same s m by simp
  qed
  then show ?thesis unfolding shouldHave_def toks by (intro arg_cong [where f = concat] map_cong) auto
qed

text \<open>The list of removals, exactly: the applied effects that have lapsed or are
  failing for a token of another actor, and the stale ones.\<close>

lemma scanAuraEffects_removed:
  "scanAuraEffects h w s tok cur effs (rem0, add0) = Inr (rem1, add1) \<Longrightarrow>
   set rem1 = set rem0 \<union>
     {e. \<exists>c \<in> set effs. \<not> passes h w s tok c \<and>
           find (\<lambda>x. origin x = Some (uuid c)) cur = Some e}"
proof (induction effs arbitrary: rem0 add0)
  case Nil
  then show ?case by simp
next
  case (Cons c effs)
  let ?removed = "case find (\<lambda>x. origin x = Some (uuid c)) cur of
                    None \<Rightarrow> rem0 | Some x \<Rightarrow> rem0 @ [x]"
  have rm: "set ?removed = set rem0 \<union> {e. find (\<lambda>x. origin x = Some (uuid c)) cur = Some e}"
    by (auto split: option.splits)
  show ?case
  proof (cases "jlt (distance (system c))
                  (getTokenToTokenDistance h s tok None (collisionTypes (system c)))")
    case True
    then have np: "\<not> passes h w s tok c" by (simp add: passes_def)
    have "scanAuraEffects h w s tok cur effs (?removed, add0) = Inr (rem1, add1)"
      using Cons.prems True by (simp add: Let_def)
    from Cons.IH [OF this] rm np show ?thesis by auto
  next
    case False
    show ?thesis
    proof (cases "executeScript h w s tok c")
      case (Inl err)
      then show ?thesis using Cons.prems False by (simp add: Let_def)
    next
      case (Inr ok)
      show ?thesis
      proof (cases ok)
        case True
        then have p: "passes h w s tok c" using False Inr by (simp add: passes_def)
        have "scanAuraEffects h w s tok cur effs (rem0, add0 @ [c]) = Inr (rem1, add1)"
          using Cons.prems False Inr True by (simp add: Let_def)
        from Cons.IH [OF this] p show ?thesis by auto
      next
        case no: False
        then have np: "\<not> passes h w s tok c" using Inr by (simp add: passes_def)
        have "scanAuraEffects h w s tok cur effs (?removed, add0) = Inr (rem1, add1)"
          using Cons.prems False Inr no by (simp add: Let_def)
        from Cons.IH [OF this] rm np show ?thesis by auto
      qed
    qed
  qed
qed

lemma reduceSceneTokens_removed:
  "reduceSceneTokens h w tok cur toks (rem0, add0) = Inr (rem1, add1) \<Longrightarrow>
   set rem1 = set rem0 \<union>
     {e. \<exists>s \<in> set toks. token_actor w s \<noteq> token_actor w tok \<and>
           (lapsed w s e \<and> e \<in> set cur \<or> failing h w s tok cur e)}"
proof (induction toks arbitrary: rem0 add0)
  case Nil
  then show ?case by simp
next
  case (Cons s toks)
  show ?case
  proof (cases "token_actor w s = token_actor w tok")
    case True
    then have "reduceSceneTokens h w tok cur toks (rem0, add0) = Inr (rem1, add1)"
      using Cons.prems by simp
    from Cons.IH [OF this] True show ?thesis by auto
  next
    case False
    let ?inactive = "snd (getAllAuraEffects (token_actor w s))"
    let ?rem = "if ?inactive \<noteq> []
                then rem0 @ filter (\<lambda>appliedEffect. \<exists>inactiveEffect \<in> set ?inactive.
                       origin appliedEffect = Some (uuid inactiveEffect)) cur
                else rem0"
    have rm: "set ?rem = set rem0 \<union> {e. lapsed w s e \<and> e \<in> set cur}"
      by (auto simp: lapsed_def)
    show ?thesis
    proof (cases "matching w s tok = []")
      case True
      then have nf: "\<And>e. \<not> failing h w s tok cur e" by (simp add: failing_def)
      have "reduceSceneTokens h w tok cur toks (?rem, add0) = Inr (rem1, add1)"
        using Cons.prems False True by (simp add: Let_def matching_def)
      from Cons.IH [OF this] rm nf False show ?thesis by auto
    next
      case some: False
      show ?thesis
      proof (cases "scanAuraEffects h w s tok cur (matching w s tok) (?rem, add0)")
        case (Inl err)
        then show ?thesis using Cons.prems False some by (simp add: Let_def matching_def)
      next
        case (Inr acc)
        obtain rem2 add2 where acc: "acc = (rem2, add2)" by (cases acc)
        have r: "reduceSceneTokens h w tok cur toks (rem2, add2) = Inr (rem1, add1)"
          using Cons.prems False some Inr acc by (simp add: Let_def matching_def)
        have sc: "set rem2 = set ?rem \<union> {e. failing h w s tok cur e}"
          using scanAuraEffects_removed [of h w s tok cur "matching w s tok" ?rem add0 rem2 add2]
            Inr acc by (simp add: failing_def)
        have "set rem2 = set rem0 \<union> {e. lapsed w s e \<and> e \<in> set cur} \<union>
                {e. failing h w s tok cur e}"
          using sc rm by simp
        with Cons.IH [OF r] False show ?thesis by auto
      qed
    qed
  qed
qed

lemma getChangingSceneAuras_removed:
  assumes run: "getChangingSceneAuras h w tok = Inr (toRemove, toAdd)"
    and a: "token_actor w tok = Some a"
  shows "set toRemove =
     {e. \<exists>s \<in> set (tokens w). token_actor w s \<noteq> token_actor w tok \<and>
           (lapsed w s e \<and> e \<in> set (filter fromAura (appliedEffects a)) \<or>
            failing h w s tok (filter fromAura (appliedEffects a)) e)} \<union>
     set (staleApplied w a)"
proof -
  let ?cur = "filter fromAura (appliedEffects a)"
  obtain rem1 add1 where r: "reduceSceneTokens h w tok ?cur (tokens w) ([], []) = Inr (rem1, add1)"
    and res: "toRemove = rem1 @ staleApplied w a"
    using run a by (auto simp: getChangingSceneAuras_def Let_def split: sum.splits)
  from reduceSceneTokens_removed [OF r] res show ?thesis by simp
qed

text \<open>In a world the delta was applied to, nothing is left to remove.\<close>

lemma rerun_nothing_to_remove:
  assumes first: "getChangingSceneAuras h w tok = Inr (toRemove, toAdd)"
    and second: "getChangingSceneAuras h w' tok = Inr (toRemove', toAdd')"
    and toks: "tokens w' = tokens w"
    and same: "\<forall>s \<in> set (tokens w).
                 (token_actor w' s = token_actor w' tok) = (token_actor w s = token_actor w tok)"
    and auras: "\<forall>s \<in> set (tokens w). token_actor w s \<noteq> token_actor w tok \<longrightarrow>
                 getAllAuraEffects (token_actor w' s) = getAllAuraEffects (token_actor w s)"
    and scripts: "\<forall>s \<in> set (tokens w). \<forall>e \<in> set (matching w s tok).
                 executeScript h w' s tok e = executeScript h w s tok e"
    and a: "token_actor w tok = Some a"
    and a': "token_actor w' tok = Some a'"
    and applied: "deltaApplied w w' a a' toRemove toAdd"
    and origins: "distinctOrigins (filter fromAura (appliedEffects a))"
    and unamb: "unambiguous h w tok toAdd"
  shows "toRemove' = []"
proof -
  let ?cur = "filter fromAura (appliedEffects a)"
  let ?cur' = "filter fromAura (appliedEffects a')"
  note R = getChangingSceneAuras_removed [OF first a]
  note R' = getChangingSceneAuras_removed [OF second a']
  have "e' \<notin> set toRemove'" for e'
  proof
    assume in': "e' \<in> set toRemove'"
    have cur': "e' \<in> set ?cur'"
      using getChangingSceneAuras_result(2) [OF second] a' in' by auto
    from applied cur' have K:
      "(e' \<in> set (appliedEffects a) \<and> e' \<notin> set toRemove \<and>
         fromUuidSync w' (origin e') = fromUuidSync w (origin e')) \<or>
       ((\<exists>p \<in> set toAdd. origin e' = Some (uuid p)) \<and> resolvesActive w' (origin e'))"
      unfolding deltaApplied_def by blast
    have fa: "fromAura e'" using cur' by simp
    from in' R' consider
      (scene) s where "s \<in> set (tokens w')" "token_actor w' s \<noteq> token_actor w' tok"
        "lapsed w' s e' \<and> e' \<in> set ?cur' \<or> failing h w' s tok ?cur' e'"
      | (stale) "e' \<in> set (staleApplied w' a')"
      by auto
    then show False
    proof cases
      case scene
      have s: "s \<in> set (tokens w)" using scene(1) toks by simp
      have nt: "token_actor w s \<noteq> token_actor w tok" using scene(2) same s by simp
      have au: "getAllAuraEffects (token_actor w' s) = getAllAuraEffects (token_actor w s)"
        using auras s nt by simp
      have mt: "matching w' s tok = matching w s tok" using au by (simp add: matching_def)
      have ps: "passes h w' s tok c = passes h w s tok c" if "c \<in> set (matching w s tok)" for c
        using scripts s that by (simp add: passes_def)
      from scene(3) show False
      proof
        assume l: "lapsed w' s e' \<and> e' \<in> set ?cur'"
        then obtain i where i: "i \<in> set (snd (getAllAuraEffects (token_actor w s)))"
          "origin e' = Some (uuid i)"
          using au by (auto simp: lapsed_def)
        from K show False
        proof
          assume k: "e' \<in> set (appliedEffects a) \<and> e' \<notin> set toRemove \<and>
                     fromUuidSync w' (origin e') = fromUuidSync w (origin e')"
          then have "lapsed w s e' \<and> e' \<in> set ?cur" using i fa by (auto simp: lapsed_def)
          then have "e' \<in> set toRemove" using R s nt by blast
          then show False using k by simp
        next
          assume n: "(\<exists>p \<in> set toAdd. origin e' = Some (uuid p)) \<and>
                     resolvesActive w' (origin e')"
          then obtain p where p: "p \<in> set toAdd" "origin e' = Some (uuid p)" by blast
          have "uuid i \<noteq> uuid p" using unamb p(1) s nt i(1) unfolding unambiguous_def by blast
          then show False using i(2) p(2) by simp
        qed
      next
        assume f: "failing h w' s tok ?cur' e'"
        then obtain c where c: "c \<in> set (matching w s tok)" "\<not> passes h w s tok c"
          "find (\<lambda>x. origin x = Some (uuid c)) ?cur' = Some e'"
          using mt ps by (auto simp: failing_def)
        have oc: "origin e' = Some (uuid c)"
          using find_SomeD [OF c(3)] by blast
        from K show False
        proof
          assume k: "e' \<in> set (appliedEffects a) \<and> e' \<notin> set toRemove \<and>
                     fromUuidSync w' (origin e') = fromUuidSync w (origin e')"
          then have ec: "e' \<in> set ?cur" using fa by simp
          then have "find (\<lambda>x. origin x = Some (uuid c)) ?cur \<noteq> None"
            using oc by (auto simp: find_None_iff)
          then obtain e0 where e0: "find (\<lambda>x. origin x = Some (uuid c)) ?cur = Some e0" by auto
          then have "e0 \<in> set ?cur" "origin e0 = Some (uuid c)"
            using find_SomeD [OF e0] by blast+
          then have "e0 = e'" using origins ec oc unfolding distinctOrigins_def by metis
          then have "failing h w s tok ?cur e'" using c(1,2) e0 by (auto simp: failing_def)
          then have "e' \<in> set toRemove" using R s nt by blast
          then show False using k by simp
        next
          assume n: "(\<exists>p \<in> set toAdd. origin e' = Some (uuid p)) \<and>
                     resolvesActive w' (origin e')"
          then obtain p where p: "p \<in> set toAdd" "origin e' = Some (uuid p)" by blast
          have "uuid c = uuid p" using oc p(2) by simp
          then have "passes h w s tok c"
            using unamb p(1) s nt c(1) unfolding unambiguous_def by blast
          then show False using c(2) by simp
        qed
      qed
    next
      case stale
      then have st: "e' \<in> set (appliedEffects a')"
        "case fromUuidSync w' (origin e') of None \<Rightarrow> True
         | Some sourceEffect \<Rightarrow> disabled sourceEffect \<or> isSuppressed sourceEffect"
        by (auto simp: staleApplied_def)
      from K show False
      proof
        assume k: "e' \<in> set (appliedEffects a) \<and> e' \<notin> set toRemove \<and>
                   fromUuidSync w' (origin e') = fromUuidSync w (origin e')"
        then have "e' \<in> set (staleApplied w a)"
          using st(2) fa by (simp add: staleApplied_def)
        then have "e' \<in> set toRemove" using R by blast
        then show False using k by simp
      next
        assume n: "(\<exists>p \<in> set toAdd. origin e' = Some (uuid p)) \<and>
                   resolvesActive w' (origin e')"
        then show False using st(2) by (auto simp: resolvesActive_def split: option.splits)
      qed
    qed
  qed
  then show ?thesis by (cases toRemove') auto
qed

text \<open>C2, on two scenes.  \<open>A\<close> stands in the aura of \<open>B\<close> and holds nothing: the delta is
  nothing to remove and the aura to add.  After it is applied \<open>A\<close> holds one effect whose
  origin is the aura, and the delta of the same token is again nothing to remove and the
  aura to add, not two empty lists.  When \<open>B\<close> has a second token out of range, the
  delta run again also lists for removal the effect that was just added.\<close>

theorem rerun_counterexample:
  "getChangingSceneAuras demo_host (pair_world auraB) tokA = Inr ([], [auraB]) \<and>
   map origin (appliedEffects (the (token_actor
     (applyDelta demo_host (pair_world auraB) tokA ([], [auraB])) tokA))) = [Some (uuid auraB)] \<and>
   getChangingSceneAuras demo_host
     (applyDelta demo_host (pair_world auraB) tokA ([], [auraB])) tokA = Inr ([], [auraB]) \<and>
   getChangingSceneAuras demo_host twin_world tokA = Inr ([], [auraB]) \<and>
   (case getChangingSceneAuras demo_host
           (applyDelta demo_host twin_world tokA ([], [auraB])) tokA of
      Inl err \<Rightarrow> False
    | Inr (toRemove, toAdd) \<Rightarrow>
        map origin toRemove = [Some (uuid auraB)] \<and> toAdd = [auraB])"
  by code_simp

text \<open>C2: the scene delta run again.  When \<open>getChangingSceneAuras\<close> returns, the list to
  add is every matching aura, of a token of another actor, that passes for the target,
  whatever the target's actor holds, and the list to remove is made of applied aura
  effects of the target's actor.  Run again in a world with the same tokens, the same
  actors set apart from the target's, the same aura effects on them and the same outcome
  of their scripts, it returns the same list to add; and when that world is one the
  delta was applied to, the applied effects had distinct origins and the identifiers to
  add are unambiguous, it returns nothing to remove.\<close>

theorem scene_delta_rerun:
  assumes first: "getChangingSceneAuras h w tok = Inr (toRemove, toAdd)"
    and second: "getChangingSceneAuras h w' tok = Inr (toRemove', toAdd')"
    and toks: "tokens w' = tokens w"
    and same: "\<forall>s \<in> set (tokens w).
                 (token_actor w' s = token_actor w' tok) = (token_actor w s = token_actor w tok)"
    and auras: "\<forall>s \<in> set (tokens w). token_actor w s \<noteq> token_actor w tok \<longrightarrow>
                 getAllAuraEffects (token_actor w' s) = getAllAuraEffects (token_actor w s)"
    and scripts: "\<forall>s \<in> set (tokens w). \<forall>e \<in> set (matching w s tok).
                 executeScript h w' s tok e = executeScript h w s tok e"
  shows "toAdd = shouldHave h w tok \<and> toAdd' = toAdd \<and>
         (\<exists>a. token_actor w tok = Some a \<and>
               set toRemove \<subseteq> set (filter fromAura (appliedEffects a))) \<and>
         (\<forall>a a'. token_actor w tok = Some a \<and> token_actor w' tok = Some a' \<and>
                  deltaApplied w w' a a' toRemove toAdd \<and>
                  distinctOrigins (filter fromAura (appliedEffects a)) \<and>
                  unambiguous h w tok toAdd
                  \<longrightarrow> toRemove' = [])"
proof -
  have p1: "toAdd = shouldHave h w tok"
    using first by (rule getChangingSceneAuras_result(1))
  have "toAdd' = shouldHave h w' tok"
    using second by (rule getChangingSceneAuras_result(1))
  also have "\<dots> = shouldHave h w tok"
    using toks same auras scripts by (rule shouldHave_cong)
  finally have p2: "toAdd' = toAdd" using p1 by simp
  have p3: "\<exists>a. token_actor w tok = Some a \<and>
               set toRemove \<subseteq> set (filter fromAura (appliedEffects a))"
    using first by (rule getChangingSceneAuras_result(2))
  have p4: "\<forall>a a'. token_actor w tok = Some a \<and> token_actor w' tok = Some a' \<and>
                  deltaApplied w w' a a' toRemove toAdd \<and>
                  distinctOrigins (filter fromAura (appliedEffects a)) \<and>
                  unambiguous h w tok toAdd
                  \<longrightarrow> toRemove' = []"
    using rerun_nothing_to_remove [OF first second toks same auras scripts] by blast
  from p1 p2 p3 p4 show ?thesis by (intro conjI)
qed

theorem scene_delta_rerun_witness:
  "getChangingSceneAuras demo_host drifted_world tokA = Inr ([driftedA], [auraB]) \<and>
   shouldHave demo_host drifted_world tokA = [auraB] \<and>
   getChangingSceneAuras demo_host
     (applyDelta demo_host drifted_world tokA ([driftedA], [auraB])) tokA = Inr ([], [auraB])"
proof -
  let ?w = "drifted_world"
  let ?w' = "applyDelta demo_host drifted_world tokA ([driftedA], [auraB])"
  let ?a = "the (token_actor ?w tokA)"
  let ?a' = "the (token_actor ?w' tokA)"
  have first: "getChangingSceneAuras demo_host ?w tokA = Inr ([driftedA], [auraB])" by code_simp
  obtain toRemove' toAdd' where
    second: "getChangingSceneAuras demo_host ?w' tokA = Inr (toRemove', toAdd')"
  proof -
    have "getChangingSceneAuras demo_host ?w' tokA = Inr ([], [auraB])" by code_simp
    then show ?thesis using that by blast
  qed
  have toks: "tokens ?w' = tokens ?w" by code_simp
  have same: "list_all (\<lambda>s. (token_actor ?w' s = token_actor ?w' tokA) =
                            (token_actor ?w s = token_actor ?w tokA)) (tokens ?w)"
    by code_simp
  have auras: "list_all (\<lambda>s. token_actor ?w s \<noteq> token_actor ?w tokA \<longrightarrow>
                 getAllAuraEffects (token_actor ?w' s) = getAllAuraEffects (token_actor ?w s))
                 (tokens ?w)"
    by code_simp
  have scripts: "list_all (\<lambda>s. list_all (\<lambda>e.
                 executeScript demo_host ?w' s tokA e = executeScript demo_host ?w s tokA e)
                 (matching ?w s tokA)) (tokens ?w)"
    by code_simp
  have a: "token_actor ?w tokA = Some ?a" by code_simp
  have a': "token_actor ?w' tokA = Some ?a'" by code_simp
  have applied: "deltaApplied ?w ?w' ?a ?a' [driftedA] [auraB]" by code_simp
  have origins: "distinctOrigins (filter fromAura (appliedEffects ?a))" by code_simp
  have unamb: "unambiguous demo_host ?w tokA [auraB]" by code_simp
  have "[auraB] = shouldHave demo_host ?w tokA \<and> toAdd' = [auraB] \<and> toRemove' = []"
    using scene_delta_rerun [OF first second toks same [unfolded list_all_iff]
        auras [unfolded list_all_iff] scripts [unfolded list_all_iff]]
      a a' applied origins unamb
    by blast
  then show ?thesis using first second by simp
qed

section \<open>Additions and the origins already held\<close>

text \<open>What \<open>pushAll\<close> and the loops built on it add to a map, and where the apply query
  of each handler comes from.\<close>

lemma pairs_iff: "(k, v) \<in> pairs m \<longleftrightarrow> (\<exists>vs. (k, vs) \<in> set m \<and> v \<in> set vs)"
  by (force simp: pairs_def)

lemma pairs_append: "pairs (m @ n) = pairs m \<union> pairs n"
  by (simp add: pairs_def)

lemma pairs_bump:
  "k \<in> fst ` set m \<Longrightarrow> pairs (map (bump k vs) m) = pairs m \<union> {k} \<times> set vs"
proof (induction m)
  case Nil
  then show ?case by simp
next
  case (Cons kv m)
  have hd: "pairs (map (bump k vs) (kv # m)) = pairs [bump k vs kv] \<union> pairs (map (bump k vs) m)"
    by (simp add: pairs_def)
  have tl: "pairs (kv # m) = pairs [kv] \<union> pairs m" by (simp add: pairs_def)
  show ?case
  proof (cases "k \<in> fst ` set m")
    case True
    have "pairs [bump k vs kv] \<subseteq> pairs [kv] \<union> {k} \<times> set vs" "pairs [kv] \<subseteq> pairs [bump k vs kv]"
      by (auto simp: pairs_def bump_def)
    then show ?thesis using Cons.IH [OF True] hd tl by auto
  next
    case False
    then have k: "fst kv = k" using Cons.prems by auto
    have same: "map (bump k vs) m = m"
      using False by (induction m) (auto simp: bump_def)
    have "pairs [bump k vs kv] = pairs [kv] \<union> {k} \<times> set vs"
      using k by (auto simp: pairs_def bump_def)
    then show ?thesis using hd tl same by auto
  qed
qed

lemma pairs_pushAll: "pairs (pushAll m k vs) = pairs m \<union> {k} \<times> set vs"
proof (cases "k \<in> fst ` set m")
  case True
  then show ?thesis by (simp add: pushAll_alt pairs_bump)
next
  case False
  have "pairs [(k, vs)] = {k} \<times> set vs" by (auto simp: pairs_def)
  then show ?thesis using False by (simp add: pushAll_alt pairs_append)
qed

lemma pairs_addAll: "pairs (addAll m as e) = pairs m \<union> set as \<times> {e}"
  unfolding addAll_def
proof (induction as arbitrary: m)
  case Nil
  then show ?case by simp
next
  case (Cons a as)
  show ?case by (auto simp: Cons.IH pairs_pushAll)
qed

lemma pairs_fromEntries: "pairs (fromEntries as e) = set as \<times> {e}"
  by (auto simp: pairs_def fromEntries_def set_uniq)

lemma collectAdditions_pairs:
  "collectAdditions h w tok effs m = Inr m' \<Longrightarrow> (a, e) \<in> pairs m' \<Longrightarrow>
   (a, e) \<in> pairs m \<or> (findByOrigin w a e = None \<and> Some a \<noteq> tokenActor tok)"
proof (induction effs arbitrary: m)
  case Nil
  then show ?case by simp
next
  case (Cons eff effs)
  show ?case
  proof (cases "falsy (distance (system eff))")
    case True
    then show ?thesis using Cons by simp
  next
    case False
    show ?thesis
    proof (cases "inRange h w tok eff")
      case (Inl err)
      then show ?thesis using Cons.prems False by simp
    next
      case (Inr rng)
      then have "collectAdditions h w tok effs (addAll m (toAddTo w tok eff rng) (uuid eff)) = Inr m'"
        using Cons.prems False by simp
      from Cons.IH [OF this Cons.prems(2)]
      show ?thesis by (auto simp: pairs_addAll toAddTo_def)
    qed
  qed
qed

lemma addRemoveLoop_pairs:
  "addRemoveLoop h w mainToken effs (m, d) = Inr (m', d') \<Longrightarrow> (a, e) \<in> pairs m' \<Longrightarrow>
   (a, e) \<in> pairs m \<or> findByOrigin w a e = None"
proof (induction effs arbitrary: m d)
  case Nil
  then show ?case by simp
next
  case (Cons eff effs)
  let ?nearby = "getNearbyTokens h w mainToken (distance (system eff)) None
                   (disposition (system eff)) (collisionTypes (system eff))"
  show ?case
  proof (cases "?nearby = []")
    case True
    then show ?thesis using Cons by simp
  next
    case False
    show ?thesis
    proof (cases "filterE (\<lambda>t. if tokenId t = tokenId mainToken then Inr False
                                else executeScript h w mainToken t eff) ?nearby")
      case (Inl err)
      then show ?thesis using Cons.prems False by (simp add: Let_def)
    next
      case (Inr shouldHave)
      let ?as = "filter (\<lambda>a. findByOrigin w a (uuid eff) = None)
                   (List.map_filter tokenActor shouldHave)"
      obtain d1 where "addRemoveLoop h w mainToken effs (addAll m ?as (uuid eff), d1) = Inr (m', d')"
        using Cons.prems False Inr by (simp add: Let_def)
      from Cons.IH [OF this Cons.prems(2)]
      show ?thesis by (auto simp: pairs_addAll)
    qed
  qed
qed

lemma removeAndReplaceAuras_tag:
  "ApplyAuraEffects c m \<in> set (fst (removeAndReplaceAuras h w effs)) \<Longrightarrow>
   c = ''removeAndReplaceAuras''"
  using removeAndReplaceAuras_events [of "ApplyAuraEffects c m" h w effs] by auto

lemma createToken_filtered:
  assumes "ApplyAuraEffects c m \<in> set (fst (createToken h w tok u))" and "(a, e) \<in> pairs m"
  shows "findByOrigin w a e = None"
proof -
  from assms(1) obtain ac where
    m: "collectAdditions h w tok (fst (getAllAuraEffects (Some ac))) [] = Inr m"
    by (auto simp: createToken_def warnNoActiveGM_def
             split: if_splits option.splits sum.splits)
  from collectAdditions_pairs [OF m assms(2)] show ?thesis by (simp add: pairs_def)
qed

lemma updateTokenHidden_tag:
  "ApplyAuraEffects c m \<in> set (fst (updateTokenHidden h w tok a updates)) \<Longrightarrow>
   c = ''removeAndReplaceAuras''"
  by (auto simp: updateTokenHidden_def Let_def dest: removeAndReplaceAuras_tag
           split: if_splits)

lemma updateTokenHidden_shown:
  "upd_hidden updates = Some False \<Longrightarrow> updateTokenHidden h w tok a updates = ([], w, None)"
  by (simp add: updateTokenHidden_def)

lemma updateToken_filtered:
  assumes ev: "ApplyAuraEffects ''updateToken'' m \<in> set (fst (updateToken h w tok updates u))"
    and p: "(a, e) \<in> pairs m"
  shows "findByOrigin w a e = None"
proof -
  from ev have usr: "user w = u" by (auto simp: updateToken_def split: if_splits)
  from ev usr obtain gm where gm: "activeGM w = Some gm"
    by (cases "activeGM w") (auto simp: updateToken_def warnNoActiveGM_def split: if_splits)
  from ev usr gm obtain ac where ac: "token_actor w tok = Some ac"
    by (cases "token_actor w tok") (auto simp: updateToken_def)
  obtain tr1 w1 r1 where hid: "updateTokenHidden h w tok ac updates = (tr1, w1, r1)"
    by (cases "updateTokenHidden h w tok ac updates") auto
  have notr: "ApplyAuraEffects ''updateToken'' m \<notin> set tr1"
    using updateTokenHidden_tag [of "''updateToken''" m h w tok ac updates] hid by auto
  show ?thesis
  proof (cases "upd_hidden updates = Some False")
    case True
    then have w1: "tr1 = []" "w1 = w" "r1 = None"
      using hid updateTokenHidden_shown [of updates h w tok ac] by auto
    from ev usr gm ac hid w1 True have
      "collectAdditions h w tok (fst (getAllAuraEffects (Some ac))) [] = Inr m"
      by (auto simp: updateToken_def Let_def split: if_splits sum.splits)
    from collectAdditions_pairs [OF this p] show ?thesis by (simp add: pairs_def)
  next
    case False
    then have "fst (updateToken h w tok updates u) = tr1"
      using usr gm ac hid by (cases r1) (auto simp: updateToken_def Let_def)
    then show ?thesis using ev notr by simp
  qed
qed

lemma updateActiveEffect_filtered:
  assumes ev: "ApplyAuraEffects ''updateActiveEffect'' m \<in>
                 set (fst (updateActiveEffect h w eff updates u))"
    and p: "(a, e) \<in> pairs m"
  shows "e = uuid eff \<and> findByOrigin w a e = None"
proof -
  let ?toks = "case owningActor eff of None \<Rightarrow> [] | Some a \<Rightarrow> getActiveTokens w a"
  from ev obtain tok rest where toks: "?toks = tok # rest"
    by (cases ?toks) (auto simp: updateActiveEffect_def split: if_splits)
  from ev toks obtain gm where gm: "activeGM w = Some gm"
    by (cases "activeGM w") (auto simp: updateActiveEffect_def warnNoActiveGM_def split: if_splits)
  let ?rm = "appliedFrom w (owningActor eff) (uuid eff)"
  show ?thesis
  proof (cases "upd_disabled updates \<noteq> Some True")
    case False
    then have "fst (updateActiveEffect h w eff updates u) =
        (if ?rm \<noteq> [] then fst (removeAndReplaceAuras h w ?rm) else []) \<or>
        fst (updateActiveEffect h w eff updates u) = []"
      using toks gm by (auto simp: updateActiveEffect_def Let_def)
    then show ?thesis
      using ev removeAndReplaceAuras_tag [of "''updateActiveEffect''" m h w ?rm]
      by (auto split: if_splits)
  next
    case True
    let ?cand = "filter (\<lambda>t. tokenId t \<noteq> tokenId tok \<and> token_actor w t \<noteq> token_actor w tok)
                   (getNearbyTokens h w tok (distance (system eff)) None
                      (disposition (system eff)) (collisionTypes (system eff)))"
    from ev toks gm True have rad: "\<not> falsy (distance (system eff))"
      by (auto simp: updateActiveEffect_def Let_def split: if_splits)
    from ev toks gm True rad obtain passing where
      ps: "filterE (\<lambda>t. executeScript h w tok t eff) ?cand = Inr passing"
      by (cases "filterE (\<lambda>t. executeScript h w tok t eff) ?cand")
         (auto simp: updateActiveEffect_def Let_def split: if_splits)
    let ?m = "fromEntries (filter (\<lambda>a. findByOrigin w a (uuid eff) = None)
                (List.map_filter tokenActor passing)) (uuid eff)"
    let ?applied = "if ?m \<noteq> [] then ([ApplyAuraEffects ''updateActiveEffect'' ?m],
                       query_applyAuraEffects h ?m w) else ([], w)"
    let ?kept = "filter (\<lambda>e. target e \<notin> ActorRef ` set (List.map_filter tokenActor passing)) ?rm"
    have tr: "fst (updateActiveEffect h w eff updates u) =
        fst ?applied @ (if ?kept \<noteq> [] then fst (removeAndReplaceAuras h (snd ?applied) ?kept)
                        else [])"
      using ev toks gm True rad ps
      by (auto simp: updateActiveEffect_def Let_def split: if_splits prod.splits)
    have "ApplyAuraEffects ''updateActiveEffect'' m \<in> set (fst ?applied)"
      using ev removeAndReplaceAuras_tag [of "''updateActiveEffect''" m h "snd ?applied" ?kept]
      unfolding tr by (auto split: if_splits)
    then have "m = ?m" by (auto split: if_splits)
    then show ?thesis using p by (auto simp: pairs_fromEntries)
  qed
qed

text \<open>C1, on the last leg of a movement.  \<open>A\<close> already holds the effect whose origin is
  \<open>B\<close>'s aura and its token ends a movement within the aura: the scene delta lists the
  aura to add, and \<open>moveToken\<close> sends the apply query for \<open>A\<close> and that aura, with no
  look at what \<open>A\<close> holds.\<close>

theorem unfiltered_addition_counterexample:
  "isFinalMovementComplete tokA \<and>
   findByOrigin settled_world ''A'' (uuid auraB) = Some childA \<and>
   origin childA = Some (uuid auraB) \<and>
   getChangingSceneAuras demo_host settled_world tokA = Inr ([], [auraB]) \<and>
   fst (moveToken demo_host settled_world tokA nearOrigin ''gm'') =
     [ApplyAuraEffects ''moveToken'' [(''A'', [uuid auraB])]]"
  by code_simp

text \<open>C1: the additions that are filtered.  Every pair of an actor and a source effect
  in the apply query sent by \<open>createToken\<close>, by \<open>updateToken\<close> or by
  \<open>updateActiveEffect\<close>, and every pair collected by the loop of \<open>addRemoveEffect\<close> over
  the source effects, is one where the actor holds no effect of that origin in the world
  the handler starts from; for \<open>updateActiveEffect\<close> the source effect is the updated
  one.\<close>

theorem filtered_additions:
  "(ApplyAuraEffects ''createToken'' m1 \<in> set (fst (createToken h w tok u)) \<and>
      (a1, e1) \<in> pairs m1 \<longrightarrow> findByOrigin w a1 e1 = None) \<and>
   (ApplyAuraEffects ''updateToken'' m2 \<in> set (fst (updateToken h w tok updates u)) \<and>
      (a2, e2) \<in> pairs m2 \<longrightarrow> findByOrigin w a2 e2 = None) \<and>
   (ApplyAuraEffects ''updateActiveEffect'' m3 \<in>
        set (fst (updateActiveEffect h w eff effUpdates u)) \<and>
      (a3, e3) \<in> pairs m3 \<longrightarrow> e3 = uuid eff \<and> findByOrigin w a3 e3 = None) \<and>
   (addRemoveLoop h w tok effs ([], []) = Inr (m4, toDelete) \<and>
      (a4, e4) \<in> pairs m4 \<longrightarrow> findByOrigin w a4 e4 = None)"
proof -
  have p1: "ApplyAuraEffects ''createToken'' m1 \<in> set (fst (createToken h w tok u)) \<and>
      (a1, e1) \<in> pairs m1 \<longrightarrow> findByOrigin w a1 e1 = None"
    using createToken_filtered by blast
  have p2: "ApplyAuraEffects ''updateToken'' m2 \<in> set (fst (updateToken h w tok updates u)) \<and>
      (a2, e2) \<in> pairs m2 \<longrightarrow> findByOrigin w a2 e2 = None"
    using updateToken_filtered by blast
  have p3: "ApplyAuraEffects ''updateActiveEffect'' m3 \<in>
        set (fst (updateActiveEffect h w eff effUpdates u)) \<and>
      (a3, e3) \<in> pairs m3 \<longrightarrow> e3 = uuid eff \<and> findByOrigin w a3 e3 = None"
    using updateActiveEffect_filtered by blast
  have p4: "addRemoveLoop h w tok effs ([], []) = Inr (m4, toDelete) \<and>
      (a4, e4) \<in> pairs m4 \<longrightarrow> findByOrigin w a4 e4 = None"
    using addRemoveLoop_pairs [of h w tok effs "[]" "[]" m4 toDelete a4 e4]
    by (auto simp: pairs_def)
  from p1 p2 p3 p4 show ?thesis by (intro conjI)
qed

theorem filtered_additions_witness:
  "fst (createToken demo_host (pair_world auraB) tokB ''gm'') =
     [ApplyAuraEffects ''createToken'' [(''A'', [''B.E''])]] \<and>
   fst (updateToken demo_host (pair_world auraB) tokB shownAgain ''gm'') =
     [ApplyAuraEffects ''updateToken'' [(''A'', [''B.E''])]] \<and>
   fst (updateActiveEffect demo_host (pair_world auraB) auraB systemChanged ''gm'') =
     [ApplyAuraEffects ''updateActiveEffect'' [(''A'', [''B.E''])]] \<and>
   addRemoveLoop demo_host (pair_world auraB) tokB [auraB] ([], []) =
     Inr ([(''A'', [''B.E''])], []) \<and>
   uuid auraB = ''B.E'' \<and>
   findByOrigin (pair_world auraB) ''A'' ''B.E'' = None"
proof -
  have c: "fst (createToken demo_host (pair_world auraB) tokB ''gm'') =
     [ApplyAuraEffects ''createToken'' [(''A'', [''B.E''])]]" by code_simp
  have t: "fst (updateToken demo_host (pair_world auraB) tokB shownAgain ''gm'') =
     [ApplyAuraEffects ''updateToken'' [(''A'', [''B.E''])]]" by code_simp
  have e: "fst (updateActiveEffect demo_host (pair_world auraB) auraB systemChanged ''gm'') =
     [ApplyAuraEffects ''updateActiveEffect'' [(''A'', [''B.E''])]]" by code_simp
  have l: "addRemoveLoop demo_host (pair_world auraB) tokB [auraB] ([], []) =
     Inr ([(''A'', [''B.E''])], [])" by code_simp
  have p: "(''A'', ''B.E'') \<in> pairs [(''A'', [''B.E''])]" by (simp add: pairs_def)
  have ev1: "ApplyAuraEffects ''createToken'' [(''A'', [''B.E''])] \<in>
               set (fst (createToken demo_host (pair_world auraB) tokB ''gm''))"
    unfolding c by simp
  have ev2: "ApplyAuraEffects ''updateToken'' [(''A'', [''B.E''])] \<in>
               set (fst (updateToken demo_host (pair_world auraB) tokB shownAgain ''gm''))"
    unfolding t by simp
  have ev3: "ApplyAuraEffects ''updateActiveEffect'' [(''A'', [''B.E''])] \<in>
               set (fst (updateActiveEffect demo_host (pair_world auraB) auraB systemChanged
                           ''gm''))"
    unfolding e by simp
  have r: "''B.E'' = uuid auraB \<and> findByOrigin (pair_world auraB) ''A'' ''B.E'' = None"
    using filtered_additions [of "[(''A'', [''B.E''])]" demo_host "pair_world auraB" tokB "''gm''"
        "''A''" "''B.E''" "[(''A'', [''B.E''])]" shownAgain "''A''" "''B.E''"
        "[(''A'', [''B.E''])]" auraB systemChanged "''A''" "''B.E''" "[auraB]"
        "[(''A'', [''B.E''])]" "[]" "''A''" "''B.E''"] ev1 ev2 ev3 l p
    by blast
  have u: "uuid auraB = ''B.E''"
    using r by (rule conjunct1 [THEN sym])
  have f: "findByOrigin (pair_world auraB) ''A'' ''B.E'' = None"
    using r by (rule conjunct2)
  from c t e l u f show ?thesis by (intro conjI)
qed

end
